theory Spec2Isabelle
  imports Main
begin

section \<open>Python values, strings and the outside world\<close>

text \<open>
  The two scripts under \<^verbatim>\<open>src/scripts/azure\<close> are straight-line Python programs that read a
  defaults file, prompt the operator, shell out to the \<^verbatim>\<open>az\<close> tool and print a credential
  report. Their embedding makes every effect explicit: the world holds the defaults file, the
  lines still to be typed on standard input, the behaviour of the external tool, and the
  trace of everything the process has done so far.

  A Python \<^verbatim>\<open>str\<close> is a sequence of code points, so it is modelled as a list of naturals;
  a literal of the source is written \<open>str ''...''\<close>.
\<close>

type_synonym pystr = "nat list"

definition str :: "string \<Rightarrow> pystr" where
  "str cs = map of_char cs"

text \<open>
  The values the scripts handle: \<^verbatim>\<open>None\<close>, and whatever \<^verbatim>\<open>json.loads\<close> can return. A JSON
  number is kept as its literal text, since the scripts never compute with one. A dict is an
  association list read with \<open>map_of\<close>.
\<close>

datatype pyval =
    PNone
  | PBool bool
  | PNum pystr
  | PStr pystr
  | PList "pyval list"
  | PDict "(pystr \<times> pyval) list"

text \<open>An \<^verbatim>\<open>Optional[str]\<close> of the source, seen as a value.\<close>

fun of_opt :: "pystr option \<Rightarrow> pyval" where
  "of_opt None = PNone"
| "of_opt (Some s) = PStr s"

text \<open>\<^verbatim>\<open>not x\<close> for an \<^verbatim>\<open>Optional[str]\<close>: \<^verbatim>\<open>None\<close> and the empty string are falsy.\<close>

fun falsy :: "pystr option \<Rightarrow> bool" where
  "falsy None = True"
| "falsy (Some s) = (s = [])"

text \<open>
  \<^verbatim>\<open>f"{x}"\<close> for an \<^verbatim>\<open>Optional[str]\<close>. Where the source has just checked that \<^verbatim>\<open>x\<close> is
  truthy, \<open>fmt_opt x\<close> is the string itself.
\<close>

fun fmt_opt :: "pystr option \<Rightarrow> pystr" where
  "fmt_opt None = str ''None''"
| "fmt_opt (Some s) = s"

datatype exc = EOFError | LoadError | JSONDecodeError | KeyError | TypeError

text \<open>
  A computation ends with a value, with \<^verbatim>\<open>sys.exit(n)\<close> (Python's \<^verbatim>\<open>SystemExit\<close>, which
  \<^verbatim>\<open>except Exception\<close> does not catch), or with an exception.
\<close>

datatype 'a result = Ok 'a | SysExit int | Raise exc

record proc =
  returncode :: int
  stdout :: pystr
  stderr :: pystr

text \<open>
  What the process does, in order: a \<^verbatim>\<open>subprocess.run\<close> of an argument vector, an
  \<^verbatim>\<open>os.system\<close> of a command line, a \<^verbatim>\<open>print\<close> (the parts of the printed text, a
  formatted value kept as the value), the \<^verbatim>\<open>print(json.dumps({...}, indent=2))\<close> of the
  credential report (kept as the dict), and an \<^verbatim>\<open>input\<close> with the prompt it shows.
\<close>

datatype event =
    Run "pystr list"
  | System pystr
  | Print "pyval list"
  | PrintJson "(pystr \<times> pyval) list"
  | Input pystr

text \<open>
  The file \<^verbatim>\<open>defaults.toml\<close>: absent, present but not loadable (\<^verbatim>\<open>open\<close> or \<^verbatim>\<open>toml.load\<close>
  raises), or loaded. The values of a loaded file are taken to be strings, as the spec's
  DefaultsConfig has them.
\<close>

datatype defaults_file = Absent | Unloadable | Loaded "pystr \<rightharpoonup> pystr"

text \<open>
  The external tool answers each call with an exit status and its two output streams; the
  answer may depend on everything that happened before. The tool is taken to be installed
  and to return. \<^verbatim>\<open>json.loads\<close> is a library function: it is a parameter of the world, with
  \<open>None\<close> for \<^verbatim>\<open>JSONDecodeError\<close>.
\<close>

record world =
  defaults_toml :: defaults_file
  stdin :: "pystr list"
  subprocess_run :: "event list \<Rightarrow> pystr list \<Rightarrow> proc"
  os_system :: "event list \<Rightarrow> pystr \<Rightarrow> int"
  json_loads :: "pystr \<Rightarrow> pyval option"
  trace :: "event list"

type_synonym 'a prog = "world \<Rightarrow> 'a result \<times> world"

definition return :: "'a \<Rightarrow> 'a prog" where
  "return x w = (Ok x, w)"

definition bind :: "'a prog \<Rightarrow> ('a \<Rightarrow> 'b prog) \<Rightarrow> 'b prog" where
  "bind m f w =
     (case m w of
        (Ok x, w') \<Rightarrow> f x w'
      | (SysExit n, w') \<Rightarrow> (SysExit n, w')
      | (Raise e, w') \<Rightarrow> (Raise e, w'))"

definition raise :: "exc \<Rightarrow> 'a prog" where
  "raise e w = (Raise e, w)"

definition sys_exit :: "int \<Rightarrow> 'a prog" where
  "sys_exit n w = (SysExit n, w)"

text \<open>\<^verbatim>\<open>try: m  except Exception: h\<close>. \<^verbatim>\<open>SystemExit\<close> passes through.\<close>

definition try_except :: "'a prog \<Rightarrow> 'a prog \<Rightarrow> 'a prog" where
  "try_except m h w =
     (case m w of
        (Raise e, w') \<Rightarrow> h w'
      | (r, w') \<Rightarrow> (r, w'))"

definition emit :: "event \<Rightarrow> unit prog" where
  "emit e w = (Ok (), w\<lparr>trace := trace w @ [e]\<rparr>)"

definition print :: "pyval list \<Rightarrow> unit prog" where
  "print parts = emit (Print parts)"

definition print_str :: "pystr \<Rightarrow> unit prog" where
  "print_str s = print [PStr s]"

text \<open>\<^verbatim>\<open>input(p)\<close>: shows the prompt and reads one line; \<^verbatim>\<open>EOFError\<close> at end of input.\<close>

definition input_line :: "pystr \<Rightarrow> pystr prog" where
  "input_line p w =
     (case stdin w of
        [] \<Rightarrow> (Raise EOFError, w\<lparr>trace := trace w @ [Input p]\<rparr>)
      | l # ls \<Rightarrow> (Ok l, w\<lparr>stdin := ls, trace := trace w @ [Input p]\<rparr>))"

definition run_subprocess :: "pystr list \<Rightarrow> proc prog" where
  "run_subprocess argv w =
     (Ok (subprocess_run w (trace w) argv), w\<lparr>trace := trace w @ [Run argv]\<rparr>)"

definition run_system :: "pystr \<Rightarrow> int prog" where
  "run_system line w =
     (Ok (os_system w (trace w) line), w\<lparr>trace := trace w @ [System line]\<rparr>)"

definition loads :: "pystr \<Rightarrow> pyval prog" where
  "loads s w =
     (case json_loads w s of
        None \<Rightarrow> (Raise JSONDecodeError, w)
      | Some v \<Rightarrow> (Ok v, w))"

text \<open>\<^verbatim>\<open>d[k]\<close>: \<^verbatim>\<open>KeyError\<close> on a dict without the key, \<^verbatim>\<open>TypeError\<close> on anything but a dict.\<close>

definition getitem :: "pyval \<Rightarrow> pystr \<Rightarrow> pyval prog" where
  "getitem d k =
     (case d of
        PDict kvs \<Rightarrow> (case map_of kvs k of Some v \<Rightarrow> return v | None \<Rightarrow> raise KeyError)
      | _ \<Rightarrow> raise TypeError)"

text \<open>
  An argument vector must hold strings only: \<^verbatim>\<open>subprocess.run\<close> and \<^verbatim>\<open>" ".join\<close> raise
  \<^verbatim>\<open>TypeError\<close> on anything else, before any command runs.
\<close>

fun as_strs :: "pyval list \<Rightarrow> pystr list option" where
  "as_strs [] = Some []"
| "as_strs (PStr s # vs) = map_option ((#) s) (as_strs vs)"
| "as_strs (_ # vs) = None"

subsection \<open>String methods\<close>

text \<open>The code points \<^verbatim>\<open>str.strip()\<close> removes (CPython's \<^verbatim>\<open>_PyUnicode_IsWhitespace\<close>).\<close>

definition is_space :: "nat \<Rightarrow> bool" where
  "is_space c \<longleftrightarrow>
     (0x09 \<le> c \<and> c \<le> 0x0D) \<or> (0x1C \<le> c \<and> c \<le> 0x20) \<or> c = 0x85 \<or> c = 0xA0 \<or>
     c = 0x1680 \<or> (0x2000 \<le> c \<and> c \<le> 0x200A) \<or> c = 0x2028 \<or> c = 0x2029 \<or>
     c = 0x202F \<or> c = 0x205F \<or> c = 0x3000"

definition strip :: "pystr \<Rightarrow> pystr" where
  "strip s = rev (dropWhile is_space (rev (dropWhile is_space s)))"

text \<open>\<^verbatim>\<open>sep.join(xs)\<close>.\<close>

fun join :: "pystr \<Rightarrow> pystr list \<Rightarrow> pystr" where
  "join sep [] = []"
| "join sep [x] = x"
| "join sep (x # y # ys) = x @ sep @ join sep (y # ys)"

text \<open>The line boundaries of \<^verbatim>\<open>str.splitlines()\<close>; \<^verbatim>\<open>\r\n\<close> counts as one.\<close>

definition is_linebreak :: "nat \<Rightarrow> bool" where
  "is_linebreak c \<longleftrightarrow>
     (0x0A \<le> c \<and> c \<le> 0x0D) \<or> (0x1C \<le> c \<and> c \<le> 0x1E) \<or> c = 0x85 \<or>
     c = 0x2028 \<or> c = 0x2029"

fun splitlines_from :: "pystr \<Rightarrow> pystr \<Rightarrow> pystr list" where
  "splitlines_from cur [] = (if cur = [] then [] else [rev cur])"
| "splitlines_from cur (c # cs) =
     (if c = 0x0D \<and> cs \<noteq> [] \<and> hd cs = 0x0A then rev cur # splitlines_from [] (tl cs)
      else if is_linebreak c then rev cur # splitlines_from [] cs
      else splitlines_from (c # cur) cs)"

definition splitlines :: "pystr \<Rightarrow> pystr list" where
  "splitlines s = splitlines_from [] s"

text \<open>
  \<^verbatim>\<open>str.lower()\<close> on the ASCII letters. The only use of the result is a comparison with
  \<^verbatim>\<open>"yes"\<close> and \<^verbatim>\<open>"y"\<close>, and no code point outside ASCII lowers to one of these letters.
\<close>

definition lower_char :: "nat \<Rightarrow> nat" where
  "lower_char c = (if 0x41 \<le> c \<and> c \<le> 0x5A then c + 0x20 else c)"

definition lower :: "pystr \<Rightarrow> pystr" where
  "lower s = map lower_char s"

section \<open>What the two scripts share\<close>

text \<open>
  \<^verbatim>\<open>prompt(msg, default)\<close>, the same text in both files:
  \<^verbatim>\<open>val = input(f"{msg} [{default}]: ").strip(); return val if val else default\<close>.
\<close>

definition prompt :: "pystr \<Rightarrow> pystr \<Rightarrow> pystr prog" where
  "prompt msg dflt =
     bind (input_line (msg @ str '' ['' @ dflt @ str '']: '')) (\<lambda>line.
       let val = strip line in
       return (if val \<noteq> [] then val else dflt))"

text \<open>\<^verbatim>\<open>defaults.get(key, fallback)\<close>.\<close>

definition get_default :: "(pystr \<rightharpoonup> pystr) \<Rightarrow> pystr \<Rightarrow> pystr \<Rightarrow> pystr" where
  "get_default defaults key fallback =
     (case defaults key of Some v \<Rightarrow> v | None \<Rightarrow> fallback)"

text \<open>The record both scripts build for the service principal.\<close>

record sp_record =
  sp_client_id :: pyval
  sp_client_secret :: pyval
  sp_tenant_id :: pyval
  sp_object_id :: pyval

text \<open>The exit status of the process: an uncaught exception ends it with status 1.\<close>

fun exit_code :: "'a result \<Rightarrow> int" where
  "exit_code (Ok _) = 0"
| "exit_code (SysExit n) = n"
| "exit_code (Raise _) = 1"

text \<open>The events a run adds to the trace.\<close>

definition emitted :: "world \<Rightarrow> world \<Rightarrow> event list" where
  "emitted w w' = drop (length (trace w)) (trace w')"

definition lit :: "string \<Rightarrow> pyval" where
  "lit cs = PStr (str cs)"

section \<open>The Key Vault script, \<^verbatim>\<open>keyvault_sp_restricted.py\<close>\<close>

definition kv_load_defaults :: "(pystr \<rightharpoonup> pystr) prog" where
  "kv_load_defaults w =
     (case defaults_toml w of
        Absent \<Rightarrow>
          bind (print_str (str ''Defaults file defaults.toml not found!'')) (\<lambda>_. sys_exit 1) w
      | Unloadable \<Rightarrow> raise LoadError w
      | Loaded d \<Rightarrow> return d w)"

text \<open>
  \<^verbatim>\<open>az(cmd, capture_output=True)\<close>. With \<^verbatim>\<open>capture_output\<close> the command runs under
  \<^verbatim>\<open>subprocess.run\<close> and a non-zero exit prints the command line and the captured error
  stream before \<^verbatim>\<open>sys.exit(1)\<close>; without it the joined command line goes to \<^verbatim>\<open>os.system\<close>,
  a non-zero status exits at once, and the function returns \<^verbatim>\<open>None\<close>.
\<close>

definition kv_az :: "pyval list \<Rightarrow> bool \<Rightarrow> pystr option prog" where
  "kv_az cmd capture_output =
     (case as_strs (lit ''az'' # cmd) of
        None \<Rightarrow> raise TypeError
      | Some full_cmd \<Rightarrow>
          if capture_output then
            bind (run_subprocess full_cmd) (\<lambda>result.
              if returncode result \<noteq> 0 then
                bind (print_str (str ''Command failed: '' @ join (str '' '') full_cmd)) (\<lambda>_.
                bind (print_str (stderr result)) (\<lambda>_.
                sys_exit 1))
              else return (Some (strip (stdout result))))
          else
            bind (run_system (join (str '' '') full_cmd)) (\<lambda>ret.
              if ret \<noteq> 0 then sys_exit 1 else return None))"

definition kv_get_sp :: "pystr \<Rightarrow> (bool \<times> pyval \<times> pyval \<times> pystr option) prog" where
  "kv_get_sp sp_name =
     try_except
       (bind (kv_az [lit ''ad'', lit ''sp'', lit ''show'', lit ''--id'', PStr sp_name] True) (\<lambda>out.
          case out of
            None \<Rightarrow> return (False, PNone, PNone, None)
          | Some out_s \<Rightarrow>
              if out_s = [] then return (False, PNone, PNone, None)
              else
                bind (loads out_s) (\<lambda>data.
                bind (getitem data (str ''appId'')) (\<lambda>client_id.
                bind (getitem data (str ''id'')) (\<lambda>object_id.
                bind (kv_az [lit ''ad'', lit ''sp'', lit ''show'', lit ''--id'', client_id,
                             lit ''--query'', lit ''appOwnerOrganizationId'',
                             lit ''-o'', lit ''tsv''] True) (\<lambda>tenant_id.
                return (True, client_id, object_id, tenant_id)))))))
       (return (False, PNone, PNone, None))"

definition kv_create_sp :: "pystr \<Rightarrow> (pyval \<times> pyval \<times> pyval \<times> pystr option) prog" where
  "kv_create_sp sp_name =
     bind (kv_az [lit ''ad'', lit ''sp'', lit ''create-for-rbac'', lit ''--name'', PStr sp_name,
                  lit ''--skip-assignment'', lit ''--query'',
                  lit ''{clientId: appId, clientSecret: password, tenantId: tenant}'',
                  lit ''-o'', lit ''json''] True) (\<lambda>out.
     bind (if falsy out
           then bind (print_str ([0x274C] @ str '' Failed to create Service Principal'')) (\<lambda>_.
                sys_exit 1)
           else return ()) (\<lambda>_.
     bind (loads (fmt_opt out)) (\<lambda>d.
     bind (getitem d (str ''clientId'')) (\<lambda>client_id.
     bind (getitem d (str ''clientSecret'')) (\<lambda>client_secret.
     bind (getitem d (str ''tenantId'')) (\<lambda>tenant_id.
     bind (kv_az [lit ''ad'', lit ''sp'', lit ''show'', lit ''--id'', client_id,
                  lit ''--query'', lit ''id'', lit ''-o'', lit ''tsv''] True) (\<lambda>object_id.
     return (client_id, client_secret, tenant_id, object_id))))))))"

definition kv_reset_sp_secret :: "pyval \<Rightarrow> pystr option prog" where
  "kv_reset_sp_secret client_id =
     kv_az [lit ''ad'', lit ''sp'', lit ''credential'', lit ''reset'', lit ''--id'', client_id,
            lit ''--query'', lit ''password'', lit ''-o'', lit ''tsv''] True"

definition kv_assign_rbac :: "pyval \<Rightarrow> pystr \<Rightarrow> pystr \<Rightarrow> unit prog" where
  "kv_assign_rbac object_id role scope =
     bind (kv_az [lit ''role'', lit ''assignment'', lit ''create'', lit ''--assignee'', object_id,
                  lit ''--role'', PStr role, lit ''--scope'', PStr scope] False) (\<lambda>_.
     return ())"

definition kv_get_secret_names :: "pystr \<Rightarrow> pystr option \<Rightarrow> pystr list prog" where
  "kv_get_secret_names vault_name prefix =
     bind (kv_az [lit ''keyvault'', lit ''secret'', lit ''list'', lit ''--vault-name'',
                  PStr vault_name, lit ''--query'',
                  PStr (str ''[?starts_with(name, '' @ [0x27] @ fmt_opt prefix @ [0x27] @
                        str '')].name''),
                  lit ''-o'', lit ''tsv''] True) (\<lambda>out.
     if falsy out then return []
     else return (filter (\<lambda>n. n \<noteq> []) (splitlines (fmt_opt out))))"

text \<open>
  \<^verbatim>\<open>main\<close> runs five steps in a row, taken here one by one: loading the defaults, the
  prompts (\<^verbatim>\<open># Prompt user\<close>), \<^verbatim>\<open># SP Creation/Reuse\<close>, \<^verbatim>\<open># Assign RBAC\<close> and
  \<^verbatim>\<open># Output JSON for GH Secrets\<close>.
\<close>

record kv_inputs =
  kv_repo_name :: pystr
  kv_sp_name :: pystr
  kv_tenant_id :: pystr
  kv_subscription_id :: pystr
  kv_resource_group :: pystr
  kv_keyvault_name :: pystr
  kv_scope_choice :: pystr
  kv_secret_prefix :: "pystr option"

definition kv_prompt_user :: "(pystr \<rightharpoonup> pystr) \<Rightarrow> kv_inputs prog" where
  "kv_prompt_user defaults =
     (let org_prefix = get_default defaults (str ''org_prefix'') (str ''pfx'');
          tenant_id0 = get_default defaults (str ''azure_tenant_id'') [];
          subscription_id0 = get_default defaults (str ''azure_subscription_id'') [];
          resource_group0 = get_default defaults (str ''azure_resource_group'') [];
          keyvault_name0 = get_default defaults (str ''azure_keyvault_name'') []
      in
      bind (prompt (str ''Enter the Git repository name'') (org_prefix @ str ''-repo''))
        (\<lambda>repo_name.
      bind (prompt (str ''Azure Tenant ID'') tenant_id0) (\<lambda>tenant_id.
      bind (prompt (str ''Azure Subscription ID'') subscription_id0) (\<lambda>subscription_id.
      bind (prompt (str ''Azure Resource Group'') resource_group0) (\<lambda>resource_group.
      bind (prompt (str ''Azure Key Vault name'') keyvault_name0) (\<lambda>keyvault_name.
      bind (print_str ([0x0A, 0x1F510] @ str '' Choose Key Vault access scope for repo''))
        (\<lambda>_.
      bind (print_str (str ''1. Grant access to all secrets in the Key Vault'')) (\<lambda>_.
      bind (print_str (str ''2. Grant access to secrets matching a prefix'')) (\<lambda>_.
      bind (prompt (str ''Enter 1 or 2'') (str ''1'')) (\<lambda>scope_choice.
      bind (if scope_choice = str ''2''
            then bind (prompt (str ''Enter the prefix to match secrets (e.g., dev-github-arc-)'')
                         (repo_name @ str ''-'')) (\<lambda>p. return (Some p))
            else return None) (\<lambda>secret_prefix.
      return \<lparr>kv_repo_name = repo_name, kv_sp_name = repo_name @ str ''-sp'',
              kv_tenant_id = tenant_id, kv_subscription_id = subscription_id,
              kv_resource_group = resource_group, kv_keyvault_name = keyvault_name,
              kv_scope_choice = scope_choice, kv_secret_prefix = secret_prefix\<rparr>)))))))))))"

definition kv_sp_creation_reuse :: "kv_inputs \<Rightarrow> sp_record prog" where
  "kv_sp_creation_reuse i =
     bind (kv_get_sp (kv_sp_name i)) (\<lambda>(found, client_id, object_id, real_tenant_id).
       if found then
         bind (print_str ([0x2705] @ str '' Service Principal '' @ [0x27] @ kv_sp_name i @
                 [0x27] @ str '' exists. Reusing it.'')) (\<lambda>_.
         bind (kv_reset_sp_secret client_id) (\<lambda>client_secret.
         bind (if falsy client_secret
               then bind (print_str ([0x274C] @ str '' Failed to reset SP secret'')) (\<lambda>_.
                    sys_exit 1)
               else return ()) (\<lambda>_.
         return \<lparr>sp_client_id = client_id, sp_client_secret = of_opt client_secret,
                 sp_tenant_id = (if kv_tenant_id i = [] then of_opt real_tenant_id
                              else PStr (kv_tenant_id i)),
                 sp_object_id = object_id\<rparr>)))
       else
         bind (print_str (str ''==> Creating Service Principal: '' @ kv_sp_name i)) (\<lambda>_.
         bind (kv_create_sp (kv_sp_name i))
           (\<lambda>(client_id, client_secret, tenant_id, object_id).
         bind (print [PStr ([0x2705] @ str '' Service Principal created: ''), client_id]) (\<lambda>_.
         return \<lparr>sp_client_id = client_id, sp_client_secret = client_secret,
                 sp_tenant_id = tenant_id, sp_object_id = of_opt object_id\<rparr>))))"

definition kv_vault_scope :: "kv_inputs \<Rightarrow> pystr" where
  "kv_vault_scope i =
     str ''/subscriptions/'' @ kv_subscription_id i @ str ''/resourceGroups/'' @
     kv_resource_group i @ str ''/providers/Microsoft.KeyVault/vaults/'' @ kv_keyvault_name i"

definition kv_secret_scope :: "kv_inputs \<Rightarrow> pystr \<Rightarrow> pystr" where
  "kv_secret_scope i name = kv_vault_scope i @ str ''/secrets/'' @ name"

text \<open>The \<^verbatim>\<open>for name in secret_names\<close> loop.\<close>

fun kv_assign_secrets :: "kv_inputs \<Rightarrow> pyval \<Rightarrow> pystr list \<Rightarrow> unit prog" where
  "kv_assign_secrets i oid [] = return ()"
| "kv_assign_secrets i oid (name # names) =
     bind (print_str ([0x1F510] @ str '' Assigning access to secret: '' @ name)) (\<lambda>_.
     bind (kv_assign_rbac oid (str ''Key Vault Secrets User'') (kv_secret_scope i name)) (\<lambda>_.
     kv_assign_secrets i oid names))"

definition kv_assign_step :: "kv_inputs \<Rightarrow> sp_record \<Rightarrow> unit prog" where
  "kv_assign_step i sp =
     (if kv_scope_choice i = str ''2'' then
        bind (kv_get_secret_names (kv_keyvault_name i) (kv_secret_prefix i)) (\<lambda>secret_names.
        bind (if secret_names = []
              then bind (print_str ([0x274C] @ str '' No secrets found in Key Vault '' @ [0x27] @
                           kv_keyvault_name i @ [0x27] @ str '' with prefix '' @ [0x27] @
                           fmt_opt (kv_secret_prefix i) @ [0x27])) (\<lambda>_.
                   sys_exit 1)
              else return ()) (\<lambda>_.
        bind (kv_assign_secrets i (sp_object_id sp) secret_names) (\<lambda>_.
        print_str ([0x2705] @ str '' Assigned access to secrets with prefix '' @ [0x27] @
                   fmt_opt (kv_secret_prefix i) @ [0x27]))))
      else
        bind (print_str ([0x1F513] @ str '' Granting access to ALL secrets in vault '' @ [0x27] @
                kv_keyvault_name i @ [0x27] @ str '' for SP '' @ [0x27] @ kv_sp_name i @
                [0x27] @ str ''...'')) (\<lambda>_.
        bind (kv_assign_rbac (sp_object_id sp) (str ''Key Vault Secrets User'') (kv_vault_scope i))
          (\<lambda>_.
        print_str ([0x2705] @ str '' SP '' @ [0x27] @ kv_sp_name i @ [0x27] @
                   str '' now has access to ALL secrets in Key Vault '' @ [0x27] @
                   kv_keyvault_name i @ [0x27] @ str ''.''))))"

definition credentials :: "sp_record \<Rightarrow> pystr \<Rightarrow> (pystr \<times> pyval) list" where
  "credentials sp subscription_id =
     [(str ''clientId'', sp_client_id sp), (str ''clientSecret'', sp_client_secret sp),
      (str ''tenantId'', sp_tenant_id sp), (str ''subscriptionId'', PStr subscription_id)]"

definition kv_output :: "kv_inputs \<Rightarrow> sp_record \<Rightarrow> unit prog" where
  "kv_output i sp =
     bind (print_str (0x0A # str ''================== AZURE CREDENTIALS =================='')) (\<lambda>_.
     bind (emit (PrintJson (credentials sp (kv_subscription_id i)))) (\<lambda>_.
     bind (print_str (str ''======================================================='')) (\<lambda>_.
     print_str (0x0A #
       str ''Copy these values into your GitHub repo secrets and use in your GHA workflows.''))))"

definition kv_main :: "unit prog" where
  "kv_main =
     bind kv_load_defaults (\<lambda>defaults.
     bind (kv_prompt_user defaults) (\<lambda>i.
     bind (kv_sp_creation_reuse i) (\<lambda>sp.
     bind (kv_assign_step i sp) (\<lambda>_.
     kv_output i sp))))"

section \<open>The Static Web App script, \<^verbatim>\<open>create_sp_for_swa_rg.py\<close>\<close>

definition swa_load_defaults :: "(pystr \<rightharpoonup> pystr) prog" where
  "swa_load_defaults w =
     (case defaults_toml w of
        Absent \<Rightarrow>
          bind (print_str (str ''Defaults file defaults.toml not found.'')) (\<lambda>_. sys_exit 1) w
      | Unloadable \<Rightarrow> raise LoadError w
      | Loaded d \<Rightarrow> return d w)"

text \<open>
  \<^verbatim>\<open>az(cmd, capture_output=True, check=True)\<close>. The command always runs under
  \<^verbatim>\<open>subprocess.run\<close> (\<^verbatim>\<open>capture_output\<close> is not read); a non-zero exit ends the process
  only when \<^verbatim>\<open>check\<close> is set; an empty output stream is returned as \<^verbatim>\<open>None\<close>.
\<close>

definition swa_az :: "pyval list \<Rightarrow> bool \<Rightarrow> bool \<Rightarrow> pystr option prog" where
  "swa_az cmd capture_output check =
     (case as_strs (lit ''az'' # cmd) of
        None \<Rightarrow> raise TypeError
      | Some full_cmd \<Rightarrow>
          bind (run_subprocess full_cmd) (\<lambda>result.
          bind (if check \<and> returncode result \<noteq> 0 then
                  bind (print_str (str ''Command failed: '' @ join (str '' '') full_cmd)) (\<lambda>_.
                  bind (print_str (stderr result)) (\<lambda>_.
                  sys_exit 1))
                else return ()) (\<lambda>_.
          return (if stdout result \<noteq> [] then Some (strip (stdout result)) else None))))"

definition swa_get_sp :: "pystr \<Rightarrow> (bool \<times> pyval \<times> pyval \<times> pystr option) prog" where
  "swa_get_sp sp_name =
     bind (swa_az [lit ''ad'', lit ''sp'', lit ''show'', lit ''--id'',
                   PStr (str ''http://'' @ sp_name)] True False) (\<lambda>out.
     if falsy out then return (False, PNone, PNone, None)
     else
       bind (loads (fmt_opt out)) (\<lambda>data.
       bind (getitem data (str ''appId'')) (\<lambda>client_id.
       bind (getitem data (str ''id'')) (\<lambda>object_id.
       bind (swa_az [lit ''ad'', lit ''sp'', lit ''show'', lit ''--id'', client_id,
                     lit ''--query'', lit ''appOwnerOrganizationId'',
                     lit ''-o'', lit ''tsv''] True True) (\<lambda>tenant_id.
       return (True, client_id, object_id, tenant_id))))))"

definition swa_create_sp :: "pystr \<Rightarrow> (pyval \<times> pyval \<times> pyval \<times> pystr option) prog" where
  "swa_create_sp sp_name =
     bind (swa_az [lit ''ad'', lit ''sp'', lit ''create-for-rbac'', lit ''--name'', PStr sp_name,
                   lit ''--skip-assignment'', lit ''--query'',
                   lit ''{clientId: appId, clientSecret: password, tenantId: tenant}'',
                   lit ''-o'', lit ''json''] True True) (\<lambda>out.
     bind (if falsy out
           then bind (print_str ([0x274C] @ str '' No output returned by az command'')) (\<lambda>_.
                sys_exit 1)
           else return ()) (\<lambda>_.
     bind (loads (fmt_opt out)) (\<lambda>data.
     bind (getitem data (str ''clientId'')) (\<lambda>client_id.
     bind (getitem data (str ''clientSecret'')) (\<lambda>client_secret.
     bind (getitem data (str ''tenantId'')) (\<lambda>tenant_id.
     bind (swa_az [lit ''ad'', lit ''sp'', lit ''show'', lit ''--id'', client_id,
                   lit ''--query'', lit ''id'', lit ''-o'', lit ''tsv''] True True) (\<lambda>object_id.
     return (client_id, client_secret, tenant_id, object_id))))))))"

definition swa_reset_sp_secret :: "pyval \<Rightarrow> pystr option prog" where
  "swa_reset_sp_secret client_id =
     swa_az [lit ''ad'', lit ''sp'', lit ''credential'', lit ''reset'', lit ''--id'', client_id,
             lit ''--query'', lit ''password'', lit ''-o'', lit ''tsv''] True True"

definition swa_assign_rbac :: "pyval \<Rightarrow> pystr \<Rightarrow> pystr \<Rightarrow> unit prog" where
  "swa_assign_rbac object_id role scope =
     bind (swa_az [lit ''role'', lit ''assignment'', lit ''create'', lit ''--assignee'', object_id,
                   lit ''--role'', PStr role, lit ''--scope'', PStr scope] False True) (\<lambda>_.
     return ())"

definition create_swa_app :: "pystr \<Rightarrow> pystr \<Rightarrow> pystr \<Rightarrow> unit prog" where
  "create_swa_app name resource_group location =
     bind (print_str ([0x1F680] @ str '' Creating Static Web App '' @ [0x27] @ name @ [0x27] @
             str '' in RG '' @ [0x27] @ resource_group @ [0x27] @ str ''...'')) (\<lambda>_.
     bind (swa_az [lit ''staticwebapp'', lit ''create'', lit ''--name'', PStr name,
                   lit ''--resource-group'', PStr resource_group,
                   lit ''--location'', PStr location, lit ''--sku'', lit ''Free'',
                   lit ''--source'', lit ''.''] True True) (\<lambda>_.
     return ()))"

text \<open>
  \<^verbatim>\<open>main\<close>, taken step by step as for the other script: the defaults, the prompts,
  \<^verbatim>\<open># SP create or reuse\<close>, the role assignment, the optional Static Web App, the report.
\<close>

record swa_inputs =
  swa_org_prefix :: pystr
  swa_sp_name :: pystr
  swa_tenant_id :: pystr
  swa_subscription_id :: pystr
  swa_rg_name :: pystr
  swa_scope :: pystr

definition swa_prompt_user :: "(pystr \<rightharpoonup> pystr) \<Rightarrow> swa_inputs prog" where
  "swa_prompt_user defaults =
     (let org_prefix = get_default defaults (str ''org_prefix'') (str ''pfx'');
          tenant_id0 = get_default defaults (str ''azure_tenant_id'') [];
          subscription_id0 = get_default defaults (str ''azure_subscription_id'') []
      in
      bind (prompt (str ''Service Principal name prefix'') (org_prefix @ str ''-swa-deployer''))
        (\<lambda>sp_base_name.
      bind (prompt (str ''Azure Tenant ID'') tenant_id0) (\<lambda>tenant_id.
      bind (prompt (str ''Azure Subscription ID'') subscription_id0) (\<lambda>subscription_id.
      bind (prompt (str ''Resource Group name'') (str ''rg-core'')) (\<lambda>rg_name.
      return \<lparr>swa_org_prefix = org_prefix, swa_sp_name = sp_base_name @ str ''-sp'',
              swa_tenant_id = tenant_id, swa_subscription_id = subscription_id,
              swa_rg_name = rg_name,
              swa_scope = str ''/subscriptions/'' @ subscription_id @
                          str ''/resourceGroups/'' @ rg_name\<rparr>)))))"

definition swa_sp_create_or_reuse :: "swa_inputs \<Rightarrow> sp_record prog" where
  "swa_sp_create_or_reuse i =
     bind (swa_get_sp (swa_sp_name i)) (\<lambda>(found, client_id, object_id, real_tenant_id).
       if found then
         bind (print_str ([0x2705] @ str '' Service Principal '' @ [0x27] @ swa_sp_name i @
                 [0x27] @ str '' already exists. Reusing it.'')) (\<lambda>_.
         bind (swa_reset_sp_secret client_id) (\<lambda>client_secret.
         return \<lparr>sp_client_id = client_id, sp_client_secret = of_opt client_secret,
                 sp_tenant_id = (if swa_tenant_id i = [] then of_opt real_tenant_id
                                 else PStr (swa_tenant_id i)),
                 sp_object_id = object_id\<rparr>))
       else
         bind (print_str (str ''==> Creating SP '' @ [0x27] @ swa_sp_name i @ [0x27])) (\<lambda>_.
         bind (swa_create_sp (swa_sp_name i))
           (\<lambda>(client_id, client_secret, tenant_id, object_id).
         bind (print [PStr ([0x2705] @ str '' SP created: ''), client_id]) (\<lambda>_.
         return \<lparr>sp_client_id = client_id, sp_client_secret = client_secret,
                 sp_tenant_id = tenant_id, sp_object_id = of_opt object_id\<rparr>))))"

definition swa_assign_step :: "swa_inputs \<Rightarrow> sp_record \<Rightarrow> unit prog" where
  "swa_assign_step i sp =
     bind (print_str ([0x1F510] @ str '' Assigning role '' @ [0x27] @ str ''Contributor'' @
             [0x27] @ str '' to SP at scope: '' @ swa_scope i)) (\<lambda>_.
     swa_assign_rbac (sp_object_id sp) (str ''Contributor'') (swa_scope i))"

definition swa_optional_app :: "swa_inputs \<Rightarrow> unit prog" where
  "swa_optional_app i =
     bind (prompt (str ''Do you want to create an Azure Static Web App?'') (str ''yes''))
       (\<lambda>answer.
     let create_swa = lower answer in
     if create_swa = str ''yes'' \<or> create_swa = str ''y'' then
       bind (prompt (str ''Static Web App name'') (swa_org_prefix i @ str ''-swa'')) (\<lambda>swa_name.
       bind (prompt (str ''SWA location'') (str ''AustraliaEast'')) (\<lambda>swa_location.
       bind (create_swa_app swa_name (swa_rg_name i) swa_location) (\<lambda>_.
       bind (print_str ([0x0A, 0x2705] @ str '' Static Web App created: '' @ swa_name)) (\<lambda>_.
       bind (print_str (str ''SWA_NAME='' @ swa_name)) (\<lambda>_.
       bind (print_str (str ''SWA_RESOURCE_GROUP='' @ swa_rg_name i)) (\<lambda>_.
       print_str (str ''SWA_LOCATION='' @ swa_location)))))))
     else return ())"

definition swa_output :: "swa_inputs \<Rightarrow> sp_record \<Rightarrow> unit prog" where
  "swa_output i sp =
     bind (print_str (0x0A # str ''================== AZURE CREDENTIALS =================='')) (\<lambda>_.
     bind (emit (PrintJson (credentials sp (swa_subscription_id i)))) (\<lambda>_.
     bind (print_str (str ''======================================================='')) (\<lambda>_.
     print_str ([0x0A, 0x2705] @
       str '' Copy the above JSON into GitHub repo secrets as `AZURE_CREDS`''))))"

definition swa_main :: "unit prog" where
  "swa_main =
     bind swa_load_defaults (\<lambda>defaults.
     bind (swa_prompt_user defaults) (\<lambda>i.
     bind (swa_sp_create_or_reuse i) (\<lambda>sp.
     bind (swa_assign_step i sp) (\<lambda>_.
     bind (swa_optional_app i) (\<lambda>_.
     swa_output i sp)))))"

section \<open>The vocabulary of the properties\<close>

definition starts_with :: "'a list \<Rightarrow> 'a list \<Rightarrow> bool" where
  "starts_with p xs \<longleftrightarrow> take (length p) xs = p"

text \<open>
  The spec speaks of lookup, creation, credential-reset and role-assignment calls, of the
  vault listing, of prompts and of the final report. An event is classified by the leading
  words of its command, or by the text of its prompt.
\<close>

datatype event_kind =
  Lookup | Creation | Reset | Assignment | Listing | AppCreation | OtherCall
  | Printed | Report | PrefixPrompt | Prompted

fun kind :: "event \<Rightarrow> event_kind" where
  "kind (Run argv) =
     (if starts_with [str ''az'', str ''ad'', str ''sp'', str ''show''] argv then Lookup
      else if starts_with [str ''az'', str ''ad'', str ''sp'', str ''create-for-rbac''] argv
        then Creation
      else if starts_with [str ''az'', str ''ad'', str ''sp'', str ''credential'', str ''reset'']
                argv
        then Reset
      else if starts_with [str ''az'', str ''role'', str ''assignment'', str ''create''] argv
        then Assignment
      else if starts_with [str ''az'', str ''keyvault'', str ''secret'', str ''list''] argv
        then Listing
      else if starts_with [str ''az'', str ''staticwebapp'', str ''create''] argv
        then AppCreation
      else OtherCall)"
| "kind (System line) =
     (if starts_with (str ''az role assignment create '') line then Assignment else OtherCall)"
| "kind (Print parts) = Printed"
| "kind (PrintJson d) = Report"
| "kind (Input p) =
     (if starts_with (str ''Enter the prefix to match secrets'') p then PrefixPrompt
      else Prompted)"

text \<open>Whatever its outcome, a computation only adds events, and each of them satisfies \<open>P\<close>.\<close>

definition emits :: "(event \<Rightarrow> bool) \<Rightarrow> 'a prog \<Rightarrow> bool" where
  "emits P m \<longleftrightarrow> (\<forall>w. \<exists>es. trace (snd (m w)) = trace w @ es \<and> list_all P es)"

text \<open>What \<^verbatim>\<open>prompt\<close> returns for a line of input.\<close>

definition prompt_value :: "pystr \<Rightarrow> pystr \<Rightarrow> pystr" where
  "prompt_value line dflt = (if strip line \<noteq> [] then strip line else dflt)"

text \<open>The field of a printed report.\<close>

definition report_field :: "pystr \<Rightarrow> event \<Rightarrow> pyval option" where
  "report_field k e = (case e of PrintJson d \<Rightarrow> map_of d k | _ \<Rightarrow> None)"

text \<open>The argument vector of the credential reset for a client id.\<close>

definition reset_argv :: "pystr \<Rightarrow> pystr list" where
  "reset_argv c = [str ''az'', str ''ad'', str ''sp'', str ''credential'', str ''reset'',
                   str ''--id'', c, str ''--query'', str ''password'', str ''-o'', str ''tsv'']"

text \<open>
  The command line the Key Vault script hands to \<^verbatim>\<open>os.system\<close> for a role assignment: the
  argument vector of \<^verbatim>\<open>assign_rbac\<close> joined with blanks.
\<close>

definition kv_assign_line :: "pystr \<Rightarrow> pystr \<Rightarrow> pystr" where
  "kv_assign_line oid scope =
     str ''az role assignment create --assignee '' @ oid @
     str '' --role Key Vault Secrets User --scope '' @ scope"

text \<open>The argument vectors of the Static Web App script's lookups and of its creation call.\<close>

definition swa_name_lookup :: "pystr \<Rightarrow> pystr list" where
  "swa_name_lookup sp_name =
     [str ''az'', str ''ad'', str ''sp'', str ''show'', str ''--id'', str ''http://'' @ sp_name]"

definition swa_creation :: "pystr \<Rightarrow> pystr list" where
  "swa_creation sp_name =
     [str ''az'', str ''ad'', str ''sp'', str ''create-for-rbac'', str ''--name'', sp_name,
      str ''--skip-assignment'', str ''--query'',
      str ''{clientId: appId, clientSecret: password, tenantId: tenant}'',
      str ''-o'', str ''json'']"

definition id_lookup :: "pystr \<Rightarrow> string \<Rightarrow> pystr list" where
  "id_lookup c query =
     [str ''az'', str ''ad'', str ''sp'', str ''show'', str ''--id'', c, str ''--query'',
      str query, str ''-o'', str ''tsv'']"

text \<open>
  The field \<open>k\<close> of the JSON document that the tool prints in answer to \<open>argv\<close> after
  the history \<open>tr\<close>, as the scripts read it: the output stripped, parsed, and subscripted.
\<close>

definition answer_field :: "world \<Rightarrow> event list \<Rightarrow> pystr list \<Rightarrow> pystr \<Rightarrow> pyval option" where
  "answer_field w tr argv k =
     (case json_loads w (strip (stdout (subprocess_run w tr argv))) of
        Some (PDict kvs) \<Rightarrow> map_of kvs k
      | _ \<Rightarrow> None)"

text \<open>The argument vector of the Key Vault script's lookup by name.\<close>

definition kv_name_lookup :: "pystr \<Rightarrow> pystr list" where
  "kv_name_lookup sp_name =
     [str ''az'', str ''ad'', str ''sp'', str ''show'', str ''--id'', sp_name]"

section \<open>Example runs\<close>

text \<open>A tool that answers every call with the same exit status and output.\<close>

definition const_tool :: "int \<Rightarrow> pystr \<Rightarrow> pystr \<Rightarrow> event list \<Rightarrow> pystr list \<Rightarrow> proc" where
  "const_tool rc out err tr argv = \<lparr>returncode = rc, stdout = out, stderr = err\<rparr>"

definition example_world ::
  "defaults_file \<Rightarrow> pystr list \<Rightarrow> (event list \<Rightarrow> pystr list \<Rightarrow> proc) \<Rightarrow>
   (event list \<Rightarrow> pystr \<Rightarrow> int) \<Rightarrow> (pystr \<Rightarrow> pyval option) \<Rightarrow> world" where
  "example_world file lines tool shell parse =
     \<lparr>defaults_toml = file, stdin = lines, subprocess_run = tool, os_system = shell,
      json_loads = parse, trace = []\<rparr>"

text \<open>No defaults file.\<close>

definition w_absent :: world where
  "w_absent = example_world Absent [] (const_tool 0 [] []) (\<lambda>tr line. 0) (\<lambda>s. None)"

text \<open>The operator types \<^verbatim>\<open>"  dev-kv \t"\<close>.\<close>

definition w_typed :: world where
  "w_typed = example_world Absent [str ''  dev-kv '' @ [0x09]] (const_tool 0 [] [])
               (\<lambda>tr line. 0) (\<lambda>s. None)"

text \<open>
  The tool finds nothing: every command exits with status 3 and an error text, and every
  shell command line with status 768.
\<close>

definition w_failing :: world where
  "w_failing = example_world (Loaded Map.empty) []
                 (const_tool 3 [] (str ''ERROR: resource does not exist'')) (\<lambda>tr line. 768)
                 (\<lambda>s. None)"

definition lookup_cmd :: "pyval list" where
  "lookup_cmd = [lit ''ad'', lit ''sp'', lit ''show'', lit ''--id'', PStr (str ''http://pfx-sp'')]"

definition lookup_argv :: "pystr list" where
  "lookup_argv = [str ''az'', str ''ad'', str ''sp'', str ''show'', str ''--id'',
                  str ''http://pfx-sp'']"

text \<open>
  The principal exists: the lookup by name answers with a JSON document, the lookup of the
  tenant with \<^verbatim>\<open>11111111-aaaa\<close>, every other command with \<^verbatim>\<open>s3cret\<close>. The defaults
  file holds the organisation prefix only, and the operator accepts every default.
\<close>

definition show_json :: pystr where
  \<open>show_json = str ''{"appId": "c-1", "id": "o-1"}''\<close>

definition parse_show :: "pystr \<Rightarrow> pyval option" where
  "parse_show s =
     (if s = show_json
      then Some (PDict [(str ''appId'', PStr (str ''c-1'')), (str ''id'', PStr (str ''o-1''))])
      else None)"

definition found_tool :: "event list \<Rightarrow> pystr list \<Rightarrow> proc" where
  "found_tool tr argv =
     (if take 4 argv = [str ''az'', str ''ad'', str ''sp'', str ''show''] then
        if length argv = 6 then \<lparr>returncode = 0, stdout = show_json, stderr = []\<rparr>
        else \<lparr>returncode = 0, stdout = str ''11111111-aaaa'' @ [0x0A], stderr = []\<rparr>
      else \<lparr>returncode = 0, stdout = str ''s3cret'' @ [0x0A], stderr = []\<rparr>)"

definition found_defaults :: "pystr \<rightharpoonup> pystr" where
  "found_defaults = [str ''org_prefix'' \<mapsto> str ''acme'']"

definition w_found :: world where
  "w_found = example_world (Loaded found_defaults) [[], [], [], [], [], []] found_tool
               (\<lambda>tr line. 0) parse_show"

definition kv_found_inputs :: kv_inputs where
  "kv_found_inputs =
     \<lparr>kv_repo_name = str ''acme-repo'', kv_sp_name = str ''acme-repo-sp'', kv_tenant_id = [],
      kv_subscription_id = [], kv_resource_group = [], kv_keyvault_name = [],
      kv_scope_choice = str ''1'', kv_secret_prefix = None\<rparr>"

definition swa_found_inputs :: swa_inputs where
  "swa_found_inputs =
     \<lparr>swa_org_prefix = str ''acme'', swa_sp_name = str ''acme-swa-deployer-sp'',
      swa_tenant_id = [], swa_subscription_id = [], swa_rg_name = str ''rg-core'',
      swa_scope = str ''/subscriptions//resourceGroups/rg-core''\<rparr>"

text \<open>The same run with a tenant id in the defaults file.\<close>

definition tenant_defaults :: "pystr \<rightharpoonup> pystr" where
  "tenant_defaults = [str ''org_prefix'' \<mapsto> str ''acme'',
                      str ''azure_tenant_id'' \<mapsto> str ''22222222-bbbb'']"

definition w_found_tenant :: world where
  "w_found_tenant = example_world (Loaded tenant_defaults) [[], [], [], [], [], []] found_tool
                      (\<lambda>tr line. 0) parse_show"

definition kv_tenant_inputs :: kv_inputs where
  "kv_tenant_inputs = kv_found_inputs\<lparr>kv_tenant_id := str ''22222222-bbbb''\<rparr>"

definition found_sp :: sp_record where
  "found_sp = \<lparr>sp_client_id = PStr (str ''c-1''), sp_client_secret = PStr (str ''s3cret''),
               sp_tenant_id = PStr (str ''11111111-aaaa''), sp_object_id = PStr (str ''o-1'')\<rparr>"

text \<open>The operator answers the scope question with \<^verbatim>\<open>3\<close>.\<close>

definition w_choice3 :: world where
  "w_choice3 = example_world (Loaded found_defaults)
                 [[], [], str ''sub-1'', str ''rg-1'', str ''kv-1'', str ''3'']
                 found_tool (\<lambda>tr line. 0) parse_show"

definition kv_choice3_inputs :: kv_inputs where
  "kv_choice3_inputs =
     \<lparr>kv_repo_name = str ''acme-repo'', kv_sp_name = str ''acme-repo-sp'', kv_tenant_id = [],
      kv_subscription_id = str ''sub-1'', kv_resource_group = str ''rg-1'',
      kv_keyvault_name = str ''kv-1'', kv_scope_choice = str ''3'', kv_secret_prefix = None\<rparr>"

text \<open>
  Scenario C of the spec: secret-prefix scoping is chosen and the vault listing returns
  \<^verbatim>\<open>dev-a\<close> and \<^verbatim>\<open>dev-b\<close>.
\<close>

definition prefix_tool :: "event list \<Rightarrow> pystr list \<Rightarrow> proc" where
  "prefix_tool tr argv =
     (if take 4 argv = [str ''az'', str ''keyvault'', str ''secret'', str ''list'']
      then \<lparr>returncode = 0, stdout = str ''dev-a'' @ [0x0A] @ str ''dev-b'' @ [0x0A],
            stderr = []\<rparr>
      else found_tool tr argv)"



text \<open>
  The principal does not exist: the tool answers every command with exit status 3 and an
  error text, as \<^verbatim>\<open>az ad sp show\<close> does for an unknown identity.
\<close>

definition w_missing :: world where
  "w_missing = example_world (Loaded found_defaults) [[], [], [], [], [], []]
                 (const_tool 3 [] (str ''ERROR: resource does not exist'')) (\<lambda>tr line. 0)
                 parse_show"

text \<open>
  Scenario A of the spec: the lookup by name fails, the creation call answers with a JSON
  document, and the lookup of the object id with \<^verbatim>\<open>o-2\<close>.
\<close>

definition create_json :: pystr where
  \<open>create_json = str ''{"clientId": "c-2", "clientSecret": "pw", "tenantId": "t-2"}''\<close>

definition parse_create :: "pystr \<Rightarrow> pyval option" where
  "parse_create s =
     (if s = create_json
      then Some (PDict [(str ''clientId'', PStr (str ''c-2'')),
                        (str ''clientSecret'', PStr (str ''pw'')),
                        (str ''tenantId'', PStr (str ''t-2''))])
      else None)"

definition create_tool :: "event list \<Rightarrow> pystr list \<Rightarrow> proc" where
  "create_tool tr argv =
     (if take 4 argv = [str ''az'', str ''ad'', str ''sp'', str ''show''] then
        if length argv = 6
        then \<lparr>returncode = 3, stdout = [], stderr = str ''ERROR: resource does not exist''\<rparr>
        else \<lparr>returncode = 0, stdout = str ''o-2'' @ [0x0A], stderr = []\<rparr>
      else \<lparr>returncode = 0, stdout = create_json, stderr = []\<rparr>)"

definition w_create :: world where
  "w_create = example_world (Loaded found_defaults) [[], [], [], [], str ''no'']
                create_tool (\<lambda>tr line. 0) parse_create"


text \<open>
  The same run as \<open>w_prefix\<close>, but the operator answers the scope question with a blank, a
  \<^verbatim>\<open>2\<close> and a tab.
\<close>

definition w_padded :: world where
  "w_padded = example_world (Loaded found_defaults)
                [[], [], str ''sub-1'', str ''rg-1'', str ''kv-1'', [0x20, 0x32, 0x09],
                 str ''dev-'']
                prefix_tool (\<lambda>tr line. 0) parse_show"

section \<open>Strings\<close>

lemma str_eq_iff [simp]: "str a = str b \<longleftrightarrow> a = b"
proof -
  have "inj (of_char :: char \<Rightarrow> nat)" by (rule inj_of_char)
  then have "inj (map (of_char :: char \<Rightarrow> nat))" by simp
  then show ?thesis unfolding str_def by (auto dest: injD)
qed

lemma str_Nil [simp]: "str [] = []" "str cs = [] \<longleftrightarrow> cs = []" "[] = str cs \<longleftrightarrow> cs = []"
  by (auto simp: str_def)

lemma strip_decomp:
  "\<exists>l r. s = l @ strip s @ r \<and> list_all is_space l \<and> list_all is_space r"
proof -
  define t where "t = dropWhile is_space s"
  define l where "l = takeWhile is_space s"
  define r where "r = rev (takeWhile is_space (rev t))"
  have s: "s = l @ t" by (simp add: l_def t_def)
  have "t = rev (rev t)" by simp
  also have "\<dots> = rev (takeWhile is_space (rev t) @ dropWhile is_space (rev t))"
    by (simp only: takeWhile_dropWhile_id)
  also have "\<dots> = rev (dropWhile is_space (rev t)) @ rev (takeWhile is_space (rev t))"
    by (simp only: rev_append)
  finally have t: "t = strip s @ r" by (simp only: strip_def t_def r_def)
  have "list_all is_space l"
    unfolding l_def list_all_iff by (auto dest: set_takeWhileD)
  moreover have "list_all is_space r"
    unfolding r_def list_all_iff by (auto dest: set_takeWhileD)
  ultimately show ?thesis using s t by auto
qed

lemma dropWhile_all: "(\<forall>x\<in>set (dropWhile P xs). P x) \<longleftrightarrow> (\<forall>x\<in>set xs. P x)"
  by (induction xs) auto

lemma last_dropWhile_eq: "dropWhile P xs \<noteq> [] \<Longrightarrow> last (dropWhile P xs) = last xs"
  by (induction xs) auto

lemma strip_Nil_iff: "strip s = [] \<longleftrightarrow> list_all is_space s"
  by (simp add: strip_def dropWhile_eq_Nil_conv dropWhile_all list_all_iff)

lemma strip_ends:
  assumes "strip s \<noteq> []"
  shows "\<not> is_space (hd (strip s))" and "\<not> is_space (last (strip s))"
proof -
  define t where "t = dropWhile is_space s"
  define u where "u = dropWhile is_space (rev t)"
  have su: "strip s = rev u" by (simp add: strip_def t_def u_def)
  with assms have u: "u \<noteq> []" by simp
  then have t: "t \<noteq> []" by (auto simp: u_def)
  have "\<not> is_space (hd u)" using u unfolding u_def by (rule hd_dropWhile)
  then show "\<not> is_space (last (strip s))" using u by (simp add: su last_rev)
  have "last u = last (rev t)" using u unfolding u_def by (rule last_dropWhile_eq)
  then have "hd (strip s) = hd t" using u t by (simp add: su hd_rev last_rev)
  moreover have "\<not> is_space (hd t)" using t unfolding t_def by (rule hd_dropWhile)
  ultimately show "\<not> is_space (hd (strip s))" by simp
qed

section \<open>Running the steps\<close>

lemma bind_Ok: "m w = (Ok x, w1) \<Longrightarrow> bind m f w = f x w1"
  by (simp add: bind_def)

lemma bind_SysExit: "m w = (SysExit n, w1) \<Longrightarrow> bind m f w = (SysExit n, w1)"
  by (simp add: bind_def)

lemma bind_Raise: "m w = (Raise e, w1) \<Longrightarrow> bind m f w = (Raise e, w1)"
  by (simp add: bind_def)

lemma bind_eq_Ok_iff:
  "bind m f w = (Ok y, w') \<longleftrightarrow> (\<exists>x w1. m w = (Ok x, w1) \<and> f x w1 = (Ok y, w'))"
  by (auto simp: bind_def split: prod.splits result.splits)

lemma return_eq_iff [simp]: "return x w = (r, w') \<longleftrightarrow> r = Ok x \<and> w' = w"
  by (auto simp: return_def)

lemma print_str_step [simp]:
  "print_str s w = (Ok (), w\<lparr>trace := trace w @ [Print [PStr s]]\<rparr>)"
  by (simp add: print_str_def print_def emit_def)

lemma emitted_append [simp]: "trace w' = trace w @ es \<Longrightarrow> emitted w w' = es"
  by (simp add: emitted_def)

lemma prompt_step:
  "stdin w = l # ls \<Longrightarrow>
   prompt msg d w =
     (Ok (prompt_value l d),
      w\<lparr>stdin := ls, trace := trace w @ [Input (msg @ str '' ['' @ d @ str '']: '')]\<rparr>)"
  by (simp add: prompt_def bind_def input_line_def return_def Let_def prompt_value_def)

lemma prompt_eq_Ok_iff:
  "prompt msg d w = (Ok v, w') \<longleftrightarrow>
     (\<exists>l ls. stdin w = l # ls \<and> v = prompt_value l d \<and>
        w' = w\<lparr>stdin := ls, trace := trace w @ [Input (msg @ str '' ['' @ d @ str '']: '')]\<rparr>)"
  by (auto simp: prompt_def bind_def input_line_def return_def Let_def prompt_value_def
           split: list.splits)

section \<open>The prompter\<close>

text \<open>
  Claim C8. For every message, default and line of operator input, \<^verbatim>\<open>prompt\<close> shows the
  message with the default, reads that one line, and returns the line without its
  surrounding whitespace when something is left, and the default otherwise, that is when
  the line is empty or whitespace only. The stripped line is the input between a leading
  and a trailing run of whitespace, and neither starts nor ends with whitespace.
\<close>

theorem prompt_returns_trimmed_input_or_default:
  assumes "stdin w = line # rest"
  shows "fst (prompt msg dflt w) = Ok (if list_all is_space line then dflt else strip line) \<and>
         (\<exists>l r. line = l @ strip line @ r \<and> list_all is_space l \<and> list_all is_space r) \<and>
         (\<not> list_all is_space line \<longrightarrow>
            strip line \<noteq> [] \<and> \<not> is_space (hd (strip line)) \<and> \<not> is_space (last (strip line))) \<and>
         stdin (snd (prompt msg dflt w)) = rest \<and>
         emitted w (snd (prompt msg dflt w)) = [Input (msg @ str '' ['' @ dflt @ str '']: '')]"
proof -
  have "fst (prompt msg dflt w) = Ok (if list_all is_space line then dflt else strip line)"
    using assms by (simp add: prompt_step prompt_value_def strip_Nil_iff)
  moreover have "\<exists>l r. line = l @ strip line @ r \<and> list_all is_space l \<and> list_all is_space r"
    by (rule strip_decomp)
  moreover have "\<not> list_all is_space line \<longrightarrow>
      strip line \<noteq> [] \<and> \<not> is_space (hd (strip line)) \<and> \<not> is_space (last (strip line))"
    using strip_ends[of line] by (simp add: strip_Nil_iff)
  moreover have "stdin (snd (prompt msg dflt w)) = rest"
    using assms by (simp add: prompt_step)
  moreover have "emitted w (snd (prompt msg dflt w)) =
      [Input (msg @ str '' ['' @ dflt @ str '']: '')]"
    using assms by (simp add: prompt_step)
  ultimately show ?thesis by blast
qed

theorem prompt_returns_trimmed_input_or_default_witness:
  "stdin w_typed = [str ''  dev-kv '' @ [0x09]] \<and>
   fst (prompt (str ''Azure Key Vault name'') (str ''kv0'') w_typed) = Ok (str ''dev-kv'')"
proof -
  have h: "stdin w_typed = (str ''  dev-kv '' @ [0x09]) # []"
    by (simp add: w_typed_def example_world_def)
  have sp: "\<not> list_all is_space (str ''  dev-kv '' @ [0x09])"
    by (simp add: str_def is_space_def)
  have st: "strip (str ''  dev-kv '' @ [0x09]) = str ''dev-kv''"
    by (simp add: str_def strip_def is_space_def)
  from prompt_returns_trimmed_input_or_default[OF h, of "str ''Azure Key Vault name''" "str ''kv0''"]
  show ?thesis using h sp st by simp
qed

section \<open>The defaults loader\<close>

text \<open>
  Claim C6. When the defaults file is absent, either script ends with exit status 1, and
  all it has done by then is print that the file was not found: no external command has
  been run.
\<close>

theorem absent_defaults_exit_before_any_call:
  assumes "defaults_toml w = Absent"
  shows "fst (kv_main w) = SysExit 1 \<and> exit_code (fst (kv_main w)) \<noteq> 0 \<and>
         emitted w (snd (kv_main w)) =
           [Print [PStr (str ''Defaults file defaults.toml not found!'')]] \<and>
         fst (swa_main w) = SysExit 1 \<and> exit_code (fst (swa_main w)) \<noteq> 0 \<and>
         emitted w (snd (swa_main w)) =
           [Print [PStr (str ''Defaults file defaults.toml not found.'')]]"
proof -
  have kv: "kv_load_defaults w =
      (SysExit 1, w\<lparr>trace := trace w @ [Print [PStr (str ''Defaults file defaults.toml not found!'')]]\<rparr>)"
    using assms by (simp add: kv_load_defaults_def bind_def sys_exit_def)
  have swa: "swa_load_defaults w =
      (SysExit 1, w\<lparr>trace := trace w @ [Print [PStr (str ''Defaults file defaults.toml not found.'')]]\<rparr>)"
    using assms by (simp add: swa_load_defaults_def bind_def sys_exit_def)
  show ?thesis
    by (simp add: kv_main_def swa_main_def bind_def kv swa)
qed

theorem absent_defaults_exit_before_any_call_witness:
  "defaults_toml w_absent = Absent \<and>
   exit_code (fst (kv_main w_absent)) = 1 \<and>
   list_all (\<lambda>e. kind e = Printed) (emitted w_absent (snd (kv_main w_absent))) \<and>
   exit_code (fst (swa_main w_absent)) = 1 \<and>
   list_all (\<lambda>e. kind e = Printed) (emitted w_absent (snd (swa_main w_absent)))"
proof -
  have h: "defaults_toml w_absent = Absent"
    by (simp add: w_absent_def example_world_def)
  from absent_defaults_exit_before_any_call[OF h] show ?thesis using h by simp
qed

section \<open>The command invoker\<close>

lemma kv_az_capture_fails:
  assumes "as_strs (lit ''az'' # cmd) = Some full_cmd"
      and "returncode (subprocess_run w (trace w) full_cmd) \<noteq> 0"
  shows "kv_az cmd True w =
           (SysExit 1,
            w\<lparr>trace := trace w @
               [Run full_cmd,
                Print [PStr (str ''Command failed: '' @ join (str '' '') full_cmd)],
                Print [PStr (stderr (subprocess_run w (trace w) full_cmd))]]\<rparr>)"
  using assms by (simp add: kv_az_def bind_def run_subprocess_def sys_exit_def)

lemma swa_az_check_fails:
  assumes "as_strs (lit ''az'' # cmd) = Some full_cmd"
      and "returncode (subprocess_run w (trace w) full_cmd) \<noteq> 0"
  shows "swa_az cmd c True w =
           (SysExit 1,
            w\<lparr>trace := trace w @
               [Run full_cmd,
                Print [PStr (str ''Command failed: '' @ join (str '' '') full_cmd)],
                Print [PStr (stderr (subprocess_run w (trace w) full_cmd))]]\<rparr>)"
  using assms by (simp add: swa_az_def bind_def run_subprocess_def sys_exit_def)

lemma kv_az_system_fails:
  assumes "as_strs (lit ''az'' # cmd) = Some full_cmd"
      and "os_system w (trace w) (join (str '' '') full_cmd) \<noteq> 0"
  shows "kv_az cmd False w =
           (SysExit 1, w\<lparr>trace := trace w @ [System (join (str '' '') full_cmd)]\<rparr>)"
  using assms by (simp add: kv_az_def bind_def run_system_def sys_exit_def)

lemma swa_az_unchecked:
  assumes "as_strs (lit ''az'' # cmd) = Some full_cmd"
  shows "swa_az cmd c False w =
           (Ok (if stdout (subprocess_run w (trace w) full_cmd) \<noteq> []
                then Some (strip (stdout (subprocess_run w (trace w) full_cmd))) else None),
            w\<lparr>trace := trace w @ [Run full_cmd]\<rparr>)"
  using assms by (simp add: swa_az_def bind_def run_subprocess_def return_def)

text \<open>
  Claim C3, as amended. When the external command exits non-zero, the invoker of the Key
  Vault script called with \<^verbatim>\<open>capture_output\<close> and the invoker of the Static Web App script
  called with \<^verbatim>\<open>check\<close> print the failing command line and the captured error stream and
  end the process with exit status 1. Called without \<^verbatim>\<open>capture_output\<close>, the first ends
  the process without printing anything; called without \<^verbatim>\<open>check\<close>, the second prints
  nothing and returns the output to its caller.
\<close>

theorem az_nonzero_exit_prints_and_terminates:
  assumes "as_strs (lit ''az'' # cmd) = Some full_cmd"
  shows "(returncode (subprocess_run w (trace w) full_cmd) \<noteq> 0 \<longrightarrow>
            kv_az cmd True w =
              (SysExit 1,
               w\<lparr>trace := trace w @
                  [Run full_cmd,
                   Print [PStr (str ''Command failed: '' @ join (str '' '') full_cmd)],
                   Print [PStr (stderr (subprocess_run w (trace w) full_cmd))]]\<rparr>) \<and>
            swa_az cmd c True w =
              (SysExit 1,
               w\<lparr>trace := trace w @
                  [Run full_cmd,
                   Print [PStr (str ''Command failed: '' @ join (str '' '') full_cmd)],
                   Print [PStr (stderr (subprocess_run w (trace w) full_cmd))]]\<rparr>)) \<and>
         (os_system w (trace w) (join (str '' '') full_cmd) \<noteq> 0 \<longrightarrow>
            kv_az cmd False w =
              (SysExit 1, w\<lparr>trace := trace w @ [System (join (str '' '') full_cmd)]\<rparr>)) \<and>
         fst (swa_az cmd c False w) =
           Ok (if stdout (subprocess_run w (trace w) full_cmd) \<noteq> []
               then Some (strip (stdout (subprocess_run w (trace w) full_cmd))) else None) \<and>
         emitted w (snd (swa_az cmd c False w)) = [Run full_cmd]"
  using kv_az_capture_fails[OF assms] swa_az_check_fails[OF assms]
        kv_az_system_fails[OF assms] swa_az_unchecked[OF assms]
  by simp

lemma as_strs_lookup: "as_strs (lit ''az'' # lookup_cmd) = Some lookup_argv"
  by (simp add: lookup_cmd_def lookup_argv_def lit_def)

theorem az_nonzero_exit_prints_and_terminates_witness:
  "as_strs (lit ''az'' # lookup_cmd) = Some lookup_argv \<and>
   returncode (subprocess_run w_failing (trace w_failing) lookup_argv) \<noteq> 0 \<and>
   fst (kv_az lookup_cmd True w_failing) = SysExit 1 \<and>
   fst (swa_az lookup_cmd True True w_failing) = SysExit 1 \<and>
   emitted w_failing (snd (swa_az lookup_cmd True True w_failing)) =
     [Run lookup_argv,
      Print [PStr (str ''Command failed: '' @ join (str '' '') lookup_argv)],
      Print [PStr (str ''ERROR: resource does not exist'')]]"
proof -
  have rc: "returncode (subprocess_run w_failing (trace w_failing) lookup_argv) \<noteq> 0"
    by (simp add: w_failing_def example_world_def const_tool_def)
  have err: "stderr (subprocess_run w_failing (trace w_failing) lookup_argv) =
             str ''ERROR: resource does not exist''"
    by (simp add: w_failing_def example_world_def const_tool_def)
  from az_nonzero_exit_prints_and_terminates[OF as_strs_lookup, of w_failing True]
  show ?thesis using rc err as_strs_lookup by simp
qed

text \<open>
  The claim as stated fails: here the command exits with status 3, yet the invoker of the
  Static Web App script, called without \<^verbatim>\<open>check\<close> as the existence lookup calls it,
  prints nothing and returns \<^verbatim>\<open>None\<close>; and the invoker of the Key Vault script, called
  without \<^verbatim>\<open>capture_output\<close> as the role assignment calls it, ends the process having
  printed neither the command line nor the error stream.
\<close>

theorem az_nonzero_exit_counterexample:
  "returncode (subprocess_run w_failing (trace w_failing) lookup_argv) = 3 \<and>
   swa_az lookup_cmd True False w_failing = (Ok None, w_failing\<lparr>trace := [Run lookup_argv]\<rparr>) \<and>
   os_system w_failing (trace w_failing) (join (str '' '') lookup_argv) = 768 \<and>
   kv_az lookup_cmd False w_failing =
     (SysExit 1, w_failing\<lparr>trace := [System (join (str '' '') lookup_argv)]\<rparr>)"
proof -
  have tr: "trace w_failing = []"
    by (simp add: w_failing_def example_world_def)
  have rc: "returncode (subprocess_run w_failing (trace w_failing) lookup_argv) = 3"
    by (simp add: w_failing_def example_world_def const_tool_def)
  have out: "stdout (subprocess_run w_failing (trace w_failing) lookup_argv) = []"
    by (simp add: w_failing_def example_world_def const_tool_def)
  have sh: "os_system w_failing (trace w_failing) (join (str '' '') lookup_argv) = 768"
    by (simp add: w_failing_def example_world_def)
  have a: "swa_az lookup_cmd True False w_failing = (Ok None, w_failing\<lparr>trace := [Run lookup_argv]\<rparr>)"
    using swa_az_unchecked[OF as_strs_lookup, of True w_failing] out tr by simp
  have b: "kv_az lookup_cmd False w_failing =
     (SysExit 1, w_failing\<lparr>trace := [System (join (str '' '') lookup_argv)]\<rparr>)"
    using kv_az_system_fails[OF as_strs_lookup, of w_failing] sh tr by simp
  show ?thesis using rc sh a b by simp
qed

section \<open>Kinds of events\<close>

lemma kind_Run [simp]:
  "kind (Run (str ''az'' # str ''ad'' # str ''sp'' # str ''show'' # xs)) = Lookup"
  "kind (Run (str ''az'' # str ''ad'' # str ''sp'' # str ''create-for-rbac'' # xs)) = Creation"
  "kind (Run (str ''az'' # str ''ad'' # str ''sp'' # str ''credential'' # str ''reset'' # xs)) = Reset"
  "kind (Run (str ''az'' # str ''role'' # str ''assignment'' # str ''create'' # xs)) = Assignment"
  "kind (Run (str ''az'' # str ''keyvault'' # str ''secret'' # str ''list'' # xs)) = Listing"
  "kind (Run (str ''az'' # str ''staticwebapp'' # str ''create'' # xs)) = AppCreation"
  by (simp_all add: starts_with_def)

lemma kind_System [simp]:
  "kind (System (str ''az'' @ str '' '' @ str ''role'' @ str '' '' @ str ''assignment'' @
                 str '' '' @ str ''create'' @ str '' '' @ xs)) = Assignment"
  by (simp add: starts_with_def str_def)

lemma kind_Input [simp]:
  "kind (Input (str ''Enter the Git repository name'' @ xs)) = Prompted"
  "kind (Input (str ''Azure Tenant ID'' @ xs)) = Prompted"
  "kind (Input (str ''Azure Subscription ID'' @ xs)) = Prompted"
  "kind (Input (str ''Azure Resource Group'' @ xs)) = Prompted"
  "kind (Input (str ''Azure Key Vault name'' @ xs)) = Prompted"
  "kind (Input (str ''Enter 1 or 2'' @ xs)) = Prompted"
  "kind (Input (str ''Enter the prefix to match secrets (e.g., dev-github-arc-)'' @ xs)) =
     PrefixPrompt"
  "kind (Input (str ''Service Principal name prefix'' @ xs)) = Prompted"
  "kind (Input (str ''Resource Group name'' @ xs)) = Prompted"
  "kind (Input (str ''Do you want to create an Azure Static Web App?'' @ xs)) = Prompted"
  "kind (Input (str ''Static Web App name'' @ xs)) = Prompted"
  "kind (Input (str ''SWA location'' @ xs)) = Prompted"
  by (simp_all add: starts_with_def str_def)

lemma kind_others [simp]: "kind (Print ps) = Printed" "kind (PrintJson d) = Report"
  by simp_all

declare kind.simps [simp del]

lemma as_strs_Cons_Some [simp]:
  "as_strs (v # vs) = Some xs \<longleftrightarrow> (\<exists>s ys. v = PStr s \<and> as_strs vs = Some ys \<and> xs = s # ys)"
  by (cases v) auto

section \<open>What a step can emit\<close>

lemma emits_mono: "emits P m \<Longrightarrow> (\<And>e. P e \<Longrightarrow> Q e) \<Longrightarrow> emits Q m"
  unfolding emits_def list_all_iff by metis

lemma emitsD:
  assumes "emits P m"
  shows "trace (snd (m w)) = trace w @ emitted w (snd (m w))"
    and "list_all P (emitted w (snd (m w)))"
proof -
  from assms obtain es where "trace (snd (m w)) = trace w @ es" "list_all P es"
    unfolding emits_def by blast
  then show "trace (snd (m w)) = trace w @ emitted w (snd (m w))"
    and "list_all P (emitted w (snd (m w)))" by simp_all
qed

lemma emits_return [intro!, simp]: "emits P (return x)"
  by (simp add: emits_def return_def)

lemma emits_raise [intro!, simp]: "emits P (raise e)"
  by (simp add: emits_def raise_def)

lemma emits_sys_exit [intro!, simp]: "emits P (sys_exit n)"
  by (simp add: emits_def sys_exit_def)

lemma emits_emit [intro!]: "P e \<Longrightarrow> emits P (emit e)"
  by (simp add: emits_def emit_def)

lemma emits_print [intro!]: "P (Print ps) \<Longrightarrow> emits P (print ps)"
  by (simp add: print_def emits_emit)

lemma emits_print_str [intro!]: "P (Print [PStr s]) \<Longrightarrow> emits P (print_str s)"
  by (simp add: print_str_def print_def emits_emit)

lemma emits_bind [intro!]:
  assumes "emits P m" and "\<And>x. emits P (f x)"
  shows "emits P (bind m f)"
  unfolding emits_def
proof
  fix w
  from assms(1) obtain es where es: "trace (snd (m w)) = trace w @ es" "list_all P es"
    unfolding emits_def by blast
  show "\<exists>es. trace (snd (bind m f w)) = trace w @ es \<and> list_all P es"
  proof (cases "m w")
    case (Pair r w1)
    show ?thesis
    proof (cases r)
      case (Ok x)
      from assms(2)[of x] obtain es2 where
        "trace (snd (f x w1)) = trace w1 @ es2" "list_all P es2"
        unfolding emits_def by blast
      with es Pair Ok show ?thesis by (simp add: bind_def)
    next
      case (SysExit n)
      with es Pair show ?thesis by (simp add: bind_def)
    next
      case (Raise e)
      with es Pair show ?thesis by (simp add: bind_def)
    qed
  qed
qed

lemma emits_try_except [intro!]:
  assumes "emits P m" and "emits P h"
  shows "emits P (try_except m h)"
  unfolding emits_def
proof
  fix w
  from assms(1) obtain es where es: "trace (snd (m w)) = trace w @ es" "list_all P es"
    unfolding emits_def by blast
  show "\<exists>es. trace (snd (try_except m h w)) = trace w @ es \<and> list_all P es"
  proof (cases "m w")
    case (Pair r w1)
    from assms(2) obtain es2 where
        "trace (snd (h w1)) = trace w1 @ es2" "list_all P es2"
        unfolding emits_def by blast
    with es Pair show ?thesis by (cases r) (simp_all add: try_except_def)
  qed
qed

lemma emits_input_line [intro!]: "P (Input p) \<Longrightarrow> emits P (input_line p)"
  by (simp add: emits_def input_line_def split: list.splits)

lemma emits_run_subprocess [intro!]: "P (Run argv) \<Longrightarrow> emits P (run_subprocess argv)"
  by (simp add: emits_def run_subprocess_def)

lemma emits_run_system [intro!]: "P (System line) \<Longrightarrow> emits P (run_system line)"
  by (simp add: emits_def run_system_def)

lemma emits_loads [intro!, simp]: "emits P (loads s)"
  by (simp add: emits_def loads_def split: option.splits)

lemma emits_getitem [intro!, simp]: "emits P (getitem d k)"
  by (auto simp: getitem_def split: pyval.splits option.splits)

lemma emits_prompt [intro!]:
  "P (Input (msg @ str '' ['' @ d @ str '']: '')) \<Longrightarrow> emits P (prompt msg d)"
  by (auto simp: prompt_def Let_def)

lemma emits_kv_az:
  assumes "\<And>argv. as_strs (lit ''az'' # cmd) = Some argv \<Longrightarrow>
             P (if c then Run argv else System (join (str '' '') argv))"
      and "\<And>ps. P (Print ps)"
  shows "emits P (kv_az cmd c)"
  using assms unfolding kv_az_def
  by (auto split: option.splits)

lemma emits_swa_az:
  assumes "\<And>argv. as_strs (lit ''az'' # cmd) = Some argv \<Longrightarrow> P (Run argv)"
      and "\<And>ps. P (Print ps)"
  shows "emits P (swa_az cmd c k)"
  using assms unfolding swa_az_def
  by (auto split: option.splits)

subsection \<open>The Key Vault script\<close>

lemma kv_load_defaults_kinds: "emits (\<lambda>e. kind e = Printed) kv_load_defaults"
  by (auto simp: emits_def kv_load_defaults_def bind_def sys_exit_def raise_def return_def
           split: defaults_file.splits)

lemma kv_prompt_user_kinds:
  "emits (\<lambda>e. kind e \<in> {Printed, Prompted, PrefixPrompt}) (kv_prompt_user d)"
  unfolding kv_prompt_user_def Let_def by (auto simp del: append_assoc)

lemma kv_get_sp_kinds: "emits (\<lambda>e. kind e \<in> {Lookup, Printed}) (kv_get_sp n)"
  unfolding kv_get_sp_def
  by (auto intro!: emits_kv_az simp: lit_def split: option.splits)

lemma kv_create_sp_kinds: "emits (\<lambda>e. kind e \<in> {Creation, Lookup, Printed}) (kv_create_sp n)"
  unfolding kv_create_sp_def
  by (auto intro!: emits_kv_az simp: lit_def split: option.splits)

lemma kv_reset_sp_secret_kinds: "emits (\<lambda>e. kind e \<in> {Reset, Printed}) (kv_reset_sp_secret c)"
  unfolding kv_reset_sp_secret_def
  by (auto intro!: emits_kv_az simp: lit_def split: option.splits)

lemma kv_sp_creation_reuse_kinds:
  "emits (\<lambda>e. kind e \<in> {Lookup, Creation, Reset, Printed}) (kv_sp_creation_reuse i)"
  unfolding kv_sp_creation_reuse_def
  by (auto intro!: emits_mono[OF kv_get_sp_kinds] emits_mono[OF kv_create_sp_kinds]
                   emits_mono[OF kv_reset_sp_secret_kinds])

lemma kv_assign_rbac_kinds:
  "emits (\<lambda>e. kind e \<in> {Assignment, Printed}) (kv_assign_rbac oid role scope)"
  unfolding kv_assign_rbac_def
  by (auto intro!: emits_kv_az simp: lit_def simp del: append_assoc)

lemma kv_get_secret_names_kinds:
  "emits (\<lambda>e. kind e \<in> {Listing, Printed}) (kv_get_secret_names v p)"
  unfolding kv_get_secret_names_def
  by (auto intro!: emits_kv_az simp: lit_def)

lemma kv_assign_secrets_kinds:
  "emits (\<lambda>e. kind e \<in> {Assignment, Printed}) (kv_assign_secrets i oid names)"
  by (induction names) (auto intro!: emits_mono[OF kv_assign_rbac_kinds])

lemma kv_assign_step_kinds:
  "emits (\<lambda>e. kind e \<in> {Listing, Assignment, Printed}) (kv_assign_step i sp)"
  unfolding kv_assign_step_def
  by (auto intro!: emits_mono[OF kv_get_secret_names_kinds] emits_mono[OF kv_assign_secrets_kinds]
                   emits_mono[OF kv_assign_rbac_kinds])

lemma kv_output_kinds:
  "emits (\<lambda>e. kind e = Printed \<or> e = PrintJson (credentials sp (kv_subscription_id i)))
     (kv_output i sp)"
  unfolding kv_output_def by auto

subsection \<open>The Static Web App script\<close>

lemma swa_load_defaults_kinds: "emits (\<lambda>e. kind e = Printed) swa_load_defaults"
  by (auto simp: emits_def swa_load_defaults_def bind_def sys_exit_def raise_def return_def
           split: defaults_file.splits)

lemma swa_prompt_user_kinds: "emits (\<lambda>e. kind e \<in> {Printed, Prompted}) (swa_prompt_user d)"
  unfolding swa_prompt_user_def Let_def by (auto simp del: append_assoc)

lemma swa_get_sp_kinds: "emits (\<lambda>e. kind e \<in> {Lookup, Printed}) (swa_get_sp n)"
  unfolding swa_get_sp_def
  by (auto intro!: emits_swa_az simp: lit_def split: option.splits)

lemma swa_create_sp_kinds: "emits (\<lambda>e. kind e \<in> {Creation, Lookup, Printed}) (swa_create_sp n)"
  unfolding swa_create_sp_def
  by (auto intro!: emits_swa_az simp: lit_def split: option.splits)

lemma swa_reset_sp_secret_kinds:
  "emits (\<lambda>e. kind e \<in> {Reset, Printed}) (swa_reset_sp_secret c)"
  unfolding swa_reset_sp_secret_def
  by (auto intro!: emits_swa_az simp: lit_def split: option.splits)

lemma swa_sp_create_or_reuse_kinds:
  "emits (\<lambda>e. kind e \<in> {Lookup, Creation, Reset, Printed}) (swa_sp_create_or_reuse i)"
  unfolding swa_sp_create_or_reuse_def
  by (auto intro!: emits_mono[OF swa_get_sp_kinds] emits_mono[OF swa_create_sp_kinds]
                   emits_mono[OF swa_reset_sp_secret_kinds])

lemma swa_assign_rbac_kinds:
  "emits (\<lambda>e. kind e \<in> {Assignment, Printed}) (swa_assign_rbac oid role scope)"
  unfolding swa_assign_rbac_def
  by (auto intro!: emits_swa_az simp: lit_def)

lemma swa_assign_step_kinds:
  "emits (\<lambda>e. kind e \<in> {Assignment, Printed}) (swa_assign_step i sp)"
  unfolding swa_assign_step_def
  by (auto intro!: emits_mono[OF swa_assign_rbac_kinds])

lemma create_swa_app_kinds:
  "emits (\<lambda>e. kind e \<in> {AppCreation, Printed}) (create_swa_app n rg loc)"
  unfolding create_swa_app_def
  by (auto intro!: emits_swa_az simp: lit_def)

lemma swa_optional_app_kinds:
  "emits (\<lambda>e. kind e \<in> {Prompted, AppCreation, Printed}) (swa_optional_app i)"
  unfolding swa_optional_app_def Let_def
  by (auto intro!: emits_mono[OF create_swa_app_kinds] simp del: append_assoc)

lemma swa_output_kinds:
  "emits (\<lambda>e. kind e = Printed \<or> e = PrintJson (credentials sp (swa_subscription_id i)))
     (swa_output i sp)"
  unfolding swa_output_def by auto

section \<open>Reading a successful step backwards\<close>

lemma try_except_eq_Ok_iff:
  "try_except m h w = (Ok x, w') \<longleftrightarrow>
     m w = (Ok x, w') \<or> (\<exists>e w1. m w = (Raise e, w1) \<and> h w1 = (Ok x, w'))"
  by (auto simp: try_except_def split: prod.splits result.splits)

lemma kv_az_capture_eq_Ok_iff:
  "kv_az cmd True w = (Ok out, w') \<longleftrightarrow>
     (\<exists>argv. as_strs (lit ''az'' # cmd) = Some argv \<and>
        returncode (subprocess_run w (trace w) argv) = 0 \<and>
        out = Some (strip (stdout (subprocess_run w (trace w) argv))) \<and>
        w' = w\<lparr>trace := trace w @ [Run argv]\<rparr>)"
  by (auto simp: kv_az_def bind_def run_subprocess_def sys_exit_def raise_def return_def
           split: option.splits)

lemma swa_az_eq_Ok_iff:
  "swa_az cmd c k w = (Ok out, w') \<longleftrightarrow>
     (\<exists>argv. as_strs (lit ''az'' # cmd) = Some argv \<and>
        (k \<longrightarrow> returncode (subprocess_run w (trace w) argv) = 0) \<and>
        out = (if stdout (subprocess_run w (trace w) argv) \<noteq> []
               then Some (strip (stdout (subprocess_run w (trace w) argv))) else None) \<and>
        w' = w\<lparr>trace := trace w @ [Run argv]\<rparr>)"
  by (auto simp: swa_az_def bind_def run_subprocess_def sys_exit_def raise_def return_def
           split: option.splits)

lemma kv_get_sp_found:
  assumes "kv_get_sp n w = (Ok (True, cid, oid, tid), w')"
  shows "\<exists>c t. cid = PStr c \<and> tid = Some t"
  using assms
  by (auto simp: kv_get_sp_def try_except_eq_Ok_iff bind_eq_Ok_iff kv_az_capture_eq_Ok_iff
           split: option.splits if_splits)

lemma swa_get_sp_found:
  assumes "swa_get_sp n w = (Ok (True, cid, oid, tid), w')"
  shows "\<exists>c. cid = PStr c"
  using assms
  by (auto simp: swa_get_sp_def bind_eq_Ok_iff swa_az_eq_Ok_iff split: if_splits)

section \<open>The shape of a run\<close>

lemma emits_at:
  assumes "emits P m" and "m w = (r, w')"
  obtains es where "trace w' = trace w @ es" and "list_all P es"
proof -
  from assms(1) obtain es where "trace (snd (m w)) = trace w @ es" "list_all P es"
    unfolding emits_def by blast
  with assms(2) that show thesis by simp
qed

lemma kv_tail_kinds:
  "emits (\<lambda>e. kind e \<in> {Listing, Assignment, Printed} \<or>
               e = PrintJson (credentials sp (kv_subscription_id i)))
     (bind (kv_assign_step i sp) (\<lambda>_. kv_output i sp))"
  by (auto intro!: emits_mono[OF kv_assign_step_kinds] emits_mono[OF kv_output_kinds])

lemma kv_main_shape:
  assumes h0: "kv_load_defaults w = (Ok d, w0)"
      and h1: "kv_prompt_user d w0 = (Ok i, w1)"
      and h2: "kv_sp_creation_reuse i w1 = (r, w2)"
  obtains es0 es1 es2 es3 where
    "emitted w (snd (kv_main w)) = es0 @ es1 @ es2 @ es3"
    "trace w0 = trace w @ es0" "list_all (\<lambda>e. kind e = Printed) es0"
    "trace w1 = trace w0 @ es1" "list_all (\<lambda>e. kind e \<in> {Printed, Prompted, PrefixPrompt}) es1"
    "trace w2 = trace w1 @ es2" "list_all (\<lambda>e. kind e \<in> {Lookup, Creation, Reset, Printed}) es2"
    "\<And>sp. r = Ok sp \<Longrightarrow>
       kv_main w = bind (kv_assign_step i sp) (\<lambda>_. kv_output i sp) w2 \<and>
       trace (snd (kv_main w)) = trace w2 @ es3 \<and>
       list_all (\<lambda>e. kind e \<in> {Listing, Assignment, Printed} \<or>
                     e = PrintJson (credentials sp (kv_subscription_id i))) es3"
    "(\<forall>sp. r \<noteq> Ok sp) \<Longrightarrow> es3 = [] \<and> fst (kv_main w) \<noteq> Ok ()"
proof -
  from emits_at[OF kv_load_defaults_kinds h0] obtain es0 where
    e0: "trace w0 = trace w @ es0" "list_all (\<lambda>e. kind e = Printed) es0" by blast
  from emits_at[OF kv_prompt_user_kinds h1] obtain es1 where
    e1: "trace w1 = trace w0 @ es1"
        "list_all (\<lambda>e. kind e \<in> {Printed, Prompted, PrefixPrompt}) es1" by blast
  from emits_at[OF kv_sp_creation_reuse_kinds h2] obtain es2 where
    e2: "trace w2 = trace w1 @ es2"
        "list_all (\<lambda>e. kind e \<in> {Lookup, Creation, Reset, Printed}) es2" by blast
  have main: "kv_main w =
      bind (kv_sp_creation_reuse i) (\<lambda>sp. bind (kv_assign_step i sp) (\<lambda>_. kv_output i sp)) w1"
    by (simp add: kv_main_def bind_Ok[of kv_load_defaults w d w0, OF h0]
                  bind_Ok[of "kv_prompt_user d" w0 i w1, OF h1])
  show thesis
  proof (cases r)
    case (Ok sp)
    have m: "kv_main w = bind (kv_assign_step i sp) (\<lambda>_. kv_output i sp) w2"
      using h2 Ok by (simp add: main bind_def)
    obtain r' w' where rw: "bind (kv_assign_step i sp) (\<lambda>_. kv_output i sp) w2 = (r', w')"
      by (cases "bind (kv_assign_step i sp) (\<lambda>_. kv_output i sp) w2")
    from emits_at[OF kv_tail_kinds rw] obtain es3 where
      e3: "trace w' = trace w2 @ es3"
          "list_all (\<lambda>e. kind e \<in> {Listing, Assignment, Printed} \<or>
                         e = PrintJson (credentials sp (kv_subscription_id i))) es3" by blast
    have "emitted w (snd (kv_main w)) = es0 @ es1 @ es2 @ es3"
      using e0 e1 e2 e3 m rw by (simp add: emitted_def)
    then show thesis using that[of es0 es1 es2 es3] e0 e1 e2 e3 m rw Ok by simp
  next
    case (SysExit n)
    have m: "kv_main w = (SysExit n, w2)" using h2 SysExit by (simp add: main bind_def)
    have "emitted w (snd (kv_main w)) = es0 @ es1 @ es2 @ []"
      using e0 e1 e2 m by (simp add: emitted_def)
    then show thesis using that[of es0 es1 es2 "[]"] e0 e1 e2 m SysExit by simp
  next
    case (Raise e)
    have m: "kv_main w = (Raise e, w2)" using h2 Raise by (simp add: main bind_def)
    have "emitted w (snd (kv_main w)) = es0 @ es1 @ es2 @ []"
      using e0 e1 e2 m by (simp add: emitted_def)
    then show thesis using that[of es0 es1 es2 "[]"] e0 e1 e2 m Raise by simp
  qed
qed

lemma kv_reuse:
  assumes "kv_get_sp (kv_sp_name i) w1 = (Ok (True, PStr c, oid, tid), w2)"
      and "kv_sp_creation_reuse i w1 = (r, w3)"
  shows "\<exists>p ps. trace w3 = trace w2 @ Print p # Run (reset_argv c) # ps \<and>
           list_all (\<lambda>e. kind e = Printed) ps \<and>
           (\<forall>sp. r = Ok sp \<longrightarrow>
              sp_client_id sp = PStr c \<and> sp_object_id sp = oid \<and>
              sp_tenant_id sp = (if kv_tenant_id i = [] then of_opt tid
                                 else PStr (kv_tenant_id i)))"
  using assms(2)
  apply (simp add: kv_sp_creation_reuse_def
           bind_Ok[of "kv_get_sp (kv_sp_name i)" w1 "(True, PStr c, oid, tid)" w2, OF assms(1)])
  apply (auto simp: kv_reset_sp_secret_def kv_az_def lit_def bind_def run_subprocess_def
           sys_exit_def return_def reset_argv_def split: if_splits)
  done

lemmas kind_plain [simp] = kind.simps(3,4)

lemma filter_kind_Nil:
  "list_all (\<lambda>e. kind e \<in> S) es \<Longrightarrow> k \<notin> S \<Longrightarrow> filter (\<lambda>e. kind e = k) es = []"
  by (auto simp: list_all_iff filter_empty_conv)

lemma kv_output_step:
  "kv_output i sp w =
     (Ok (), w\<lparr>trace := trace w @
        [Print [PStr (0x0A # str ''================== AZURE CREDENTIALS =================='')],
         PrintJson (credentials sp (kv_subscription_id i)),
         Print [PStr (str ''======================================================='')],
         Print [PStr (0x0A #
           str ''Copy these values into your GitHub repo secrets and use in your GHA workflows.'')]]\<rparr>)"
  by (simp add: kv_output_def bind_def emit_def)

lemma kv_tail_report:
  assumes run: "bind (kv_assign_step i sp) (\<lambda>_. kv_output i sp) w2 = (r, w')"
      and tr: "trace w' = trace w2 @ es"
  shows "filter (\<lambda>e. kind e = Report) es =
           (if r = Ok () then [PrintJson (credentials sp (kv_subscription_id i))] else [])"
proof -
  obtain ra wa where a: "kv_assign_step i sp w2 = (ra, wa)"
    by (cases "kv_assign_step i sp w2")
  from emits_at[OF kv_assign_step_kinds a] obtain esa where
    ea: "trace wa = trace w2 @ esa" "list_all (\<lambda>e. kind e \<in> {Listing, Assignment, Printed}) esa"
    by blast
  have none: "filter (\<lambda>e. kind e = Report) esa = []"
    using ea(2) by (rule filter_kind_Nil) simp
  show ?thesis
  proof (cases ra)
    case (Ok u)
    with a run have "kv_output i sp wa = (r, w')" by (simp add: bind_def)
    then have "r = Ok ()" and "trace w' = trace wa @
        [Print [PStr (0x0A # str ''================== AZURE CREDENTIALS =================='')],
         PrintJson (credentials sp (kv_subscription_id i)),
         Print [PStr (str ''======================================================='')],
         Print [PStr (0x0A #
           str ''Copy these values into your GitHub repo secrets and use in your GHA workflows.'')]]"
      by (auto simp: kv_output_step)
    with ea(1) tr none show ?thesis by auto
  next
    case (SysExit n)
    with a run have "r = SysExit n" "w' = wa" by (simp_all add: bind_def)
    with ea(1) tr none show ?thesis by auto
  next
    case (Raise e)
    with a run have "r = Raise e" "w' = wa" by (simp_all add: bind_def)
    with ea(1) tr none show ?thesis by auto
  qed
qed

subsection \<open>The Static Web App script\<close>

lemma swa_tail_kinds:
  "emits (\<lambda>e. kind e \<in> {Assignment, Prompted, AppCreation, Printed} \<or>
               e = PrintJson (credentials sp (swa_subscription_id i)))
     (bind (swa_assign_step i sp) (\<lambda>_. bind (swa_optional_app i) (\<lambda>_. swa_output i sp)))"
  by (auto intro!: emits_mono[OF swa_assign_step_kinds] emits_mono[OF swa_optional_app_kinds]
                   emits_mono[OF swa_output_kinds])

lemma swa_main_shape:
  assumes h0: "swa_load_defaults w = (Ok d, w0)"
      and h1: "swa_prompt_user d w0 = (Ok i, w1)"
      and h2: "swa_sp_create_or_reuse i w1 = (r, w2)"
  obtains es0 es1 es2 es3 where
    "emitted w (snd (swa_main w)) = es0 @ es1 @ es2 @ es3"
    "trace w0 = trace w @ es0" "list_all (\<lambda>e. kind e = Printed) es0"
    "trace w1 = trace w0 @ es1" "list_all (\<lambda>e. kind e \<in> {Printed, Prompted}) es1"
    "trace w2 = trace w1 @ es2" "list_all (\<lambda>e. kind e \<in> {Lookup, Creation, Reset, Printed}) es2"
    "\<And>sp. r = Ok sp \<Longrightarrow>
       swa_main w = bind (swa_assign_step i sp)
                      (\<lambda>_. bind (swa_optional_app i) (\<lambda>_. swa_output i sp)) w2 \<and>
       trace (snd (swa_main w)) = trace w2 @ es3 \<and>
       list_all (\<lambda>e. kind e \<in> {Assignment, Prompted, AppCreation, Printed} \<or>
                     e = PrintJson (credentials sp (swa_subscription_id i))) es3"
    "(\<forall>sp. r \<noteq> Ok sp) \<Longrightarrow> es3 = [] \<and> fst (swa_main w) \<noteq> Ok ()"
proof -
  from emits_at[OF swa_load_defaults_kinds h0] obtain es0 where
    e0: "trace w0 = trace w @ es0" "list_all (\<lambda>e. kind e = Printed) es0" by blast
  from emits_at[OF swa_prompt_user_kinds h1] obtain es1 where
    e1: "trace w1 = trace w0 @ es1"
        "list_all (\<lambda>e. kind e \<in> {Printed, Prompted}) es1" by blast
  from emits_at[OF swa_sp_create_or_reuse_kinds h2] obtain es2 where
    e2: "trace w2 = trace w1 @ es2"
        "list_all (\<lambda>e. kind e \<in> {Lookup, Creation, Reset, Printed}) es2" by blast
  have main: "swa_main w =
      bind (swa_sp_create_or_reuse i)
        (\<lambda>sp. bind (swa_assign_step i sp)
                 (\<lambda>_. bind (swa_optional_app i) (\<lambda>_. swa_output i sp))) w1"
    by (simp add: swa_main_def bind_Ok[of swa_load_defaults w d w0, OF h0]
                  bind_Ok[of "swa_prompt_user d" w0 i w1, OF h1])
  show thesis
  proof (cases r)
    case (Ok sp)
    have m: "swa_main w = bind (swa_assign_step i sp)
                      (\<lambda>_. bind (swa_optional_app i) (\<lambda>_. swa_output i sp)) w2"
      using h2 Ok by (simp add: main bind_def)
    obtain r' w' where rw: "bind (swa_assign_step i sp)
                      (\<lambda>_. bind (swa_optional_app i) (\<lambda>_. swa_output i sp)) w2 = (r', w')"
      by (cases "bind (swa_assign_step i sp)
                      (\<lambda>_. bind (swa_optional_app i) (\<lambda>_. swa_output i sp)) w2")
    from emits_at[OF swa_tail_kinds rw] obtain es3 where
      e3: "trace w' = trace w2 @ es3"
          "list_all (\<lambda>e. kind e \<in> {Assignment, Prompted, AppCreation, Printed} \<or>
                         e = PrintJson (credentials sp (swa_subscription_id i))) es3" by blast
    have "emitted w (snd (swa_main w)) = es0 @ es1 @ es2 @ es3"
      using e0 e1 e2 e3 m rw by (simp add: emitted_def)
    then show thesis using that[of es0 es1 es2 es3] e0 e1 e2 e3 m rw Ok by simp
  next
    case (SysExit n)
    have m: "swa_main w = (SysExit n, w2)" using h2 SysExit by (simp add: main bind_def)
    have "emitted w (snd (swa_main w)) = es0 @ es1 @ es2 @ []"
      using e0 e1 e2 m by (simp add: emitted_def)
    then show thesis using that[of es0 es1 es2 "[]"] e0 e1 e2 m SysExit by simp
  next
    case (Raise e)
    have m: "swa_main w = (Raise e, w2)" using h2 Raise by (simp add: main bind_def)
    have "emitted w (snd (swa_main w)) = es0 @ es1 @ es2 @ []"
      using e0 e1 e2 m by (simp add: emitted_def)
    then show thesis using that[of es0 es1 es2 "[]"] e0 e1 e2 m Raise by simp
  qed
qed

lemma swa_output_step:
  "swa_output i sp w =
     (Ok (), w\<lparr>trace := trace w @
        [Print [PStr (0x0A # str ''================== AZURE CREDENTIALS =================='')],
         PrintJson (credentials sp (swa_subscription_id i)),
         Print [PStr (str ''======================================================='')],
         Print [PStr ([0x0A, 0x2705] @
           str '' Copy the above JSON into GitHub repo secrets as `AZURE_CREDS`'')]]\<rparr>)"
  by (simp add: swa_output_def bind_def emit_def)

lemma swa_tail_report:
  assumes run: "bind (swa_assign_step i sp)
                  (\<lambda>_. bind (swa_optional_app i) (\<lambda>_. swa_output i sp)) w2 = (r, w')"
      and tr: "trace w' = trace w2 @ es"
  shows "filter (\<lambda>e. kind e = Report) es =
           (if r = Ok () then [PrintJson (credentials sp (swa_subscription_id i))] else [])"
proof -
  obtain ra wa where a: "swa_assign_step i sp w2 = (ra, wa)"
    by (cases "swa_assign_step i sp w2")
  from emits_at[OF swa_assign_step_kinds a] obtain esa where
    ea: "trace wa = trace w2 @ esa" "list_all (\<lambda>e. kind e \<in> {Assignment, Printed}) esa"
    by blast
  have na: "filter (\<lambda>e. kind e = Report) esa = []"
    using ea(2) by (rule filter_kind_Nil) simp
  obtain rb wb where b: "swa_optional_app i wa = (rb, wb)"
    by (cases "swa_optional_app i wa")
  from emits_at[OF swa_optional_app_kinds b] obtain esb where
    eb: "trace wb = trace wa @ esb"
        "list_all (\<lambda>e. kind e \<in> {Prompted, AppCreation, Printed}) esb"
    by blast
  have nb: "filter (\<lambda>e. kind e = Report) esb = []"
    using eb(2) by (rule filter_kind_Nil) simp
  show ?thesis
  proof (cases ra)
    case (Ok u)
    note raOk = this
    show ?thesis
    proof (cases rb)
      case (Ok u')
      with a b run raOk have "swa_output i sp wb = (r, w')" by (simp add: bind_def)
      then have "r = Ok ()" and "trace w' = trace wb @
        [Print [PStr (0x0A # str ''================== AZURE CREDENTIALS =================='')],
         PrintJson (credentials sp (swa_subscription_id i)),
         Print [PStr (str ''======================================================='')],
         Print [PStr ([0x0A, 0x2705] @
           str '' Copy the above JSON into GitHub repo secrets as `AZURE_CREDS`'')]]"
        by (auto simp: swa_output_step)
      with ea(1) eb(1) tr na nb show ?thesis by auto
    next
      case (SysExit n)
      with a b run raOk have "r = SysExit n" "w' = wb" by (simp_all add: bind_def)
      with ea(1) eb(1) tr na nb show ?thesis by auto
    next
      case (Raise e)
      with a b run raOk have "r = Raise e" "w' = wb" by (simp_all add: bind_def)
      with ea(1) eb(1) tr na nb show ?thesis by auto
    qed
  next
    case (SysExit n)
    with a run have "r = SysExit n" "w' = wa" by (simp_all add: bind_def)
    with ea(1) tr na show ?thesis by auto
  next
    case (Raise e)
    with a run have "r = Raise e" "w' = wa" by (simp_all add: bind_def)
    with ea(1) tr na show ?thesis by auto
  qed
qed

lemma swa_reuse:
  assumes "swa_get_sp (swa_sp_name i) w1 = (Ok (True, PStr c, oid, tid), w2)"
      and "swa_sp_create_or_reuse i w1 = (r, w3)"
  shows "\<exists>p ps. trace w3 = trace w2 @ Print p # Run (reset_argv c) # ps \<and>
           list_all (\<lambda>e. kind e = Printed) ps \<and>
           (\<forall>sp. r = Ok sp \<longrightarrow>
              sp_client_id sp = PStr c \<and> sp_object_id sp = oid \<and>
              sp_tenant_id sp = (if swa_tenant_id i = [] then of_opt tid
                                 else PStr (swa_tenant_id i)))"
  using assms(2)
  apply (simp add: swa_sp_create_or_reuse_def
           bind_Ok[of "swa_get_sp (swa_sp_name i)" w1 "(True, PStr c, oid, tid)" w2, OF assms(1)])
  apply (auto simp: swa_reset_sp_secret_def swa_az_def lit_def bind_def run_subprocess_def
           sys_exit_def return_def reset_argv_def split: if_splits)
  done

section \<open>Runs that find the principal\<close>

lemma filter_kind_Nil_or:
  "list_all (\<lambda>e. kind e \<in> S \<or> e = x) es \<Longrightarrow> k \<notin> S \<Longrightarrow> kind x \<noteq> k \<Longrightarrow>
   filter (\<lambda>e. kind e = k) es = []"
  by (auto simp: list_all_iff filter_empty_conv)

lemma report_field_credentials [simp]:
  "report_field (str ''clientId'') (PrintJson (credentials sp s)) = Some (sp_client_id sp)"
  "report_field (str ''tenantId'') (PrintJson (credentials sp s)) = Some (sp_tenant_id sp)"
  by (simp_all add: report_field_def credentials_def)

lemma kind_reset_argv [simp]: "kind (Run (reset_argv c)) = Reset"
  by (simp add: reset_argv_def)

lemma kv_found_run:
  assumes kv0: "kv_load_defaults w = (Ok d, w0)"
      and kv1: "kv_prompt_user d w0 = (Ok i, w1)"
      and kv2: "kv_get_sp (kv_sp_name i) w1 = (Ok (True, cid, oid, tid), w2)"
  shows "\<exists>c. cid = PStr c \<and>
           filter (\<lambda>e. kind e = Reset) (emitted w (snd (kv_main w))) = [Run (reset_argv c)]"
    and "filter (\<lambda>e. kind e = Creation) (emitted w (snd (kv_main w))) = []"
    and "map (report_field (str ''clientId''))
           (filter (\<lambda>e. kind e = Report) (emitted w (snd (kv_main w)))) =
         (if fst (kv_main w) = Ok () then [Some cid] else [])"
    and "map (report_field (str ''tenantId''))
           (filter (\<lambda>e. kind e = Report) (emitted w (snd (kv_main w)))) =
         (if fst (kv_main w) = Ok ()
          then [Some (if kv_tenant_id i = [] then of_opt tid else PStr (kv_tenant_id i))]
          else [])"
proof -
  from kv_get_sp_found[OF kv2] obtain c where cid: "cid = PStr c" by blast
  obtain r w3 where h3: "kv_sp_creation_reuse i w1 = (r, w3)"
    by (cases "kv_sp_creation_reuse i w1")
  from kv_reuse[OF kv2[unfolded cid] h3] obtain p ps where
    tr3: "trace w3 = trace w2 @ Print p # Run (reset_argv c) # ps"
    and ps: "list_all (\<lambda>e. kind e = Printed) ps"
    and sp: "\<And>sp. r = Ok sp \<Longrightarrow> sp_client_id sp = PStr c \<and> sp_object_id sp = oid \<and>
              sp_tenant_id sp = (if kv_tenant_id i = [] then of_opt tid
                                 else PStr (kv_tenant_id i))"
    by blast
  from emits_at[OF kv_get_sp_kinds kv2] obtain esl where
    esl: "trace w2 = trace w1 @ esl" "list_all (\<lambda>e. kind e \<in> {Lookup, Printed}) esl" by blast
  obtain es0 es1 es2 es3 where
    E: "emitted w (snd (kv_main w)) = es0 @ es1 @ es2 @ es3"
    and e0: "list_all (\<lambda>e. kind e = Printed) es0"
    and e1: "list_all (\<lambda>e. kind e \<in> {Printed, Prompted, PrefixPrompt}) es1"
    and t2: "trace w3 = trace w1 @ es2"
    and ok: "\<And>sp. r = Ok sp \<Longrightarrow>
       kv_main w = bind (kv_assign_step i sp) (\<lambda>_. kv_output i sp) w3 \<and>
       trace (snd (kv_main w)) = trace w3 @ es3 \<and>
       list_all (\<lambda>e. kind e \<in> {Listing, Assignment, Printed} \<or>
                     e = PrintJson (credentials sp (kv_subscription_id i))) es3"
    and bad: "(\<forall>sp. r \<noteq> Ok sp) \<Longrightarrow> es3 = [] \<and> fst (kv_main w) \<noteq> Ok ()"
    by (rule kv_main_shape[OF kv0 kv1 h3], rule that) assumption+
  have es2: "es2 = esl @ Print p # Run (reset_argv c) # ps"
    using tr3 t2 esl(1) by simp
  have k0: "\<And>k. k \<noteq> Printed \<Longrightarrow> filter (\<lambda>e. kind e = k) es0 = []"
    using e0 by (auto simp: list_all_iff filter_empty_conv)
  have k1: "\<And>k. k \<notin> {Printed, Prompted, PrefixPrompt} \<Longrightarrow> filter (\<lambda>e. kind e = k) es1 = []"
    using e1 by (rule filter_kind_Nil)
  have kl: "\<And>k. k \<notin> {Lookup, Printed} \<Longrightarrow> filter (\<lambda>e. kind e = k) esl = []"
    using esl(2) by (rule filter_kind_Nil)
  have kp: "\<And>k. k \<noteq> Printed \<Longrightarrow> filter (\<lambda>e. kind e = k) ps = []"
    using ps by (auto simp: list_all_iff filter_empty_conv)
  have k3: "\<And>k. k \<notin> {Listing, Assignment, Printed, Report} \<Longrightarrow>
              filter (\<lambda>e. kind e = k) es3 = []"
  proof (cases "\<exists>sp. r = Ok sp")
    case True
    then obtain sp where "r = Ok sp" by blast
    from ok[OF this] show "\<And>k. k \<notin> {Listing, Assignment, Printed, Report} \<Longrightarrow>
              filter (\<lambda>e. kind e = k) es3 = []"
      by (auto simp: list_all_iff filter_empty_conv)
  next
    case False
    with bad show "\<And>k. k \<notin> {Listing, Assignment, Printed, Report} \<Longrightarrow>
              filter (\<lambda>e. kind e = k) es3 = []" by simp
  qed
  show "\<exists>c. cid = PStr c \<and>
           filter (\<lambda>e. kind e = Reset) (emitted w (snd (kv_main w))) = [Run (reset_argv c)]"
    using cid by (simp add: E es2 k0 k1 kl kp k3)
  show "filter (\<lambda>e. kind e = Creation) (emitted w (snd (kv_main w))) = []"
    by (simp add: E es2 k0 k1 kl kp k3)
  have rep: "filter (\<lambda>e. kind e = Report) (emitted w (snd (kv_main w))) =
             filter (\<lambda>e. kind e = Report) es3"
    by (simp add: E es2 k0 k1 kl kp)
  show "map (report_field (str ''clientId''))
           (filter (\<lambda>e. kind e = Report) (emitted w (snd (kv_main w)))) =
         (if fst (kv_main w) = Ok () then [Some cid] else [])"
  proof (cases "\<exists>sp. r = Ok sp")
    case True
    then obtain sp where r: "r = Ok sp" by blast
    note m = ok[OF r, THEN conjunct1] and t = ok[OF r, THEN conjunct2, THEN conjunct1]
    have run: "bind (kv_assign_step i sp) (\<lambda>_. kv_output i sp) w3 =
                 (fst (kv_main w), snd (kv_main w))" by (simp add: m)
    from kv_tail_report[OF run t]
    have "filter (\<lambda>e. kind e = Report) es3 =
           (if fst (kv_main w) = Ok () then [PrintJson (credentials sp (kv_subscription_id i))]
            else [])" .
    with sp[OF r] cid show ?thesis by (simp add: rep)
  next
    case False
    with bad show ?thesis by (simp add: rep)
  qed
  show "map (report_field (str ''tenantId''))
           (filter (\<lambda>e. kind e = Report) (emitted w (snd (kv_main w)))) =
         (if fst (kv_main w) = Ok ()
          then [Some (if kv_tenant_id i = [] then of_opt tid else PStr (kv_tenant_id i))]
          else [])"
  proof (cases "\<exists>sp. r = Ok sp")
    case True
    then obtain sp where r: "r = Ok sp" by blast
    note m = ok[OF r, THEN conjunct1] and t = ok[OF r, THEN conjunct2, THEN conjunct1]
    have run: "bind (kv_assign_step i sp) (\<lambda>_. kv_output i sp) w3 =
                 (fst (kv_main w), snd (kv_main w))" by (simp add: m)
    from kv_tail_report[OF run t]
    have "filter (\<lambda>e. kind e = Report) es3 =
           (if fst (kv_main w) = Ok () then [PrintJson (credentials sp (kv_subscription_id i))]
            else [])" .
    with sp[OF r] show ?thesis by (simp add: rep)
  next
    case False
    with bad show ?thesis by (simp add: rep)
  qed
qed

lemma swa_found_run:
  assumes swa0: "swa_load_defaults w = (Ok d, w0)"
      and swa1: "swa_prompt_user d w0 = (Ok i, w1)"
      and swa2: "swa_get_sp (swa_sp_name i) w1 = (Ok (True, cid, oid, tid), w2)"
  shows "\<exists>c. cid = PStr c \<and>
           filter (\<lambda>e. kind e = Reset) (emitted w (snd (swa_main w))) = [Run (reset_argv c)]"
    and "filter (\<lambda>e. kind e = Creation) (emitted w (snd (swa_main w))) = []"
    and "map (report_field (str ''clientId''))
           (filter (\<lambda>e. kind e = Report) (emitted w (snd (swa_main w)))) =
         (if fst (swa_main w) = Ok () then [Some cid] else [])"
    and "map (report_field (str ''tenantId''))
           (filter (\<lambda>e. kind e = Report) (emitted w (snd (swa_main w)))) =
         (if fst (swa_main w) = Ok ()
          then [Some (if swa_tenant_id i = [] then of_opt tid else PStr (swa_tenant_id i))]
          else [])"
proof -
  from swa_get_sp_found[OF swa2] obtain c where cid: "cid = PStr c" by blast
  obtain r w3 where h3: "swa_sp_create_or_reuse i w1 = (r, w3)"
    by (cases "swa_sp_create_or_reuse i w1")
  from swa_reuse[OF swa2[unfolded cid] h3] obtain p ps where
    tr3: "trace w3 = trace w2 @ Print p # Run (reset_argv c) # ps"
    and ps: "list_all (\<lambda>e. kind e = Printed) ps"
    and sp: "\<And>sp. r = Ok sp \<Longrightarrow> sp_client_id sp = PStr c \<and> sp_object_id sp = oid \<and>
              sp_tenant_id sp = (if swa_tenant_id i = [] then of_opt tid
                                 else PStr (swa_tenant_id i))"
    by blast
  from emits_at[OF swa_get_sp_kinds swa2] obtain esl where
    esl: "trace w2 = trace w1 @ esl" "list_all (\<lambda>e. kind e \<in> {Lookup, Printed}) esl" by blast
  obtain es0 es1 es2 es3 where
    E: "emitted w (snd (swa_main w)) = es0 @ es1 @ es2 @ es3"
    and e0: "list_all (\<lambda>e. kind e = Printed) es0"
    and e1: "list_all (\<lambda>e. kind e \<in> {Printed, Prompted}) es1"
    and t2: "trace w3 = trace w1 @ es2"
    and ok: "\<And>sp. r = Ok sp \<Longrightarrow>
       swa_main w = bind (swa_assign_step i sp)
                      (\<lambda>_. bind (swa_optional_app i) (\<lambda>_. swa_output i sp)) w3 \<and>
       trace (snd (swa_main w)) = trace w3 @ es3 \<and>
       list_all (\<lambda>e. kind e \<in> {Assignment, Prompted, AppCreation, Printed} \<or>
                     e = PrintJson (credentials sp (swa_subscription_id i))) es3"
    and bad: "(\<forall>sp. r \<noteq> Ok sp) \<Longrightarrow> es3 = [] \<and> fst (swa_main w) \<noteq> Ok ()"
    by (rule swa_main_shape[OF swa0 swa1 h3], rule that) assumption+
  have es2: "es2 = esl @ Print p # Run (reset_argv c) # ps"
    using tr3 t2 esl(1) by simp
  have k0: "\<And>k. k \<noteq> Printed \<Longrightarrow> filter (\<lambda>e. kind e = k) es0 = []"
    using e0 by (auto simp: list_all_iff filter_empty_conv)
  have k1: "\<And>k. k \<notin> {Printed, Prompted} \<Longrightarrow> filter (\<lambda>e. kind e = k) es1 = []"
    using e1 by (rule filter_kind_Nil)
  have kl: "\<And>k. k \<notin> {Lookup, Printed} \<Longrightarrow> filter (\<lambda>e. kind e = k) esl = []"
    using esl(2) by (rule filter_kind_Nil)
  have kp: "\<And>k. k \<noteq> Printed \<Longrightarrow> filter (\<lambda>e. kind e = k) ps = []"
    using ps by (auto simp: list_all_iff filter_empty_conv)
  have k3: "\<And>k. k \<notin> {Assignment, Prompted, AppCreation, Printed, Report} \<Longrightarrow>
              filter (\<lambda>e. kind e = k) es3 = []"
  proof (cases "\<exists>sp. r = Ok sp")
    case True
    then obtain sp where "r = Ok sp" by blast
    from ok[OF this] show "\<And>k. k \<notin> {Assignment, Prompted, AppCreation, Printed, Report} \<Longrightarrow>
              filter (\<lambda>e. kind e = k) es3 = []"
      by (auto simp: list_all_iff filter_empty_conv)
  next
    case False
    with bad show "\<And>k. k \<notin> {Assignment, Prompted, AppCreation, Printed, Report} \<Longrightarrow>
              filter (\<lambda>e. kind e = k) es3 = []" by simp
  qed
  show "\<exists>c. cid = PStr c \<and>
           filter (\<lambda>e. kind e = Reset) (emitted w (snd (swa_main w))) = [Run (reset_argv c)]"
    using cid by (simp add: E es2 k0 k1 kl kp k3)
  show "filter (\<lambda>e. kind e = Creation) (emitted w (snd (swa_main w))) = []"
    by (simp add: E es2 k0 k1 kl kp k3)
  have rep: "filter (\<lambda>e. kind e = Report) (emitted w (snd (swa_main w))) =
             filter (\<lambda>e. kind e = Report) es3"
    by (simp add: E es2 k0 k1 kl kp)
  show "map (report_field (str ''clientId''))
           (filter (\<lambda>e. kind e = Report) (emitted w (snd (swa_main w)))) =
         (if fst (swa_main w) = Ok () then [Some cid] else [])"
  proof (cases "\<exists>sp. r = Ok sp")
    case True
    then obtain sp where r: "r = Ok sp" by blast
    note m = ok[OF r, THEN conjunct1] and t = ok[OF r, THEN conjunct2, THEN conjunct1]
    have run: "bind (swa_assign_step i sp)
                      (\<lambda>_. bind (swa_optional_app i) (\<lambda>_. swa_output i sp)) w3 =
                 (fst (swa_main w), snd (swa_main w))" by (simp add: m)
    from swa_tail_report[OF run t]
    have "filter (\<lambda>e. kind e = Report) es3 =
           (if fst (swa_main w) = Ok () then [PrintJson (credentials sp (swa_subscription_id i))]
            else [])" .
    with sp[OF r] cid show ?thesis by (simp add: rep)
  next
    case False
    with bad show ?thesis by (simp add: rep)
  qed
  show "map (report_field (str ''tenantId''))
           (filter (\<lambda>e. kind e = Report) (emitted w (snd (swa_main w)))) =
         (if fst (swa_main w) = Ok ()
          then [Some (if swa_tenant_id i = [] then of_opt tid else PStr (swa_tenant_id i))]
          else [])"
  proof (cases "\<exists>sp. r = Ok sp")
    case True
    then obtain sp where r: "r = Ok sp" by blast
    note m = ok[OF r, THEN conjunct1] and t = ok[OF r, THEN conjunct2, THEN conjunct1]
    have run: "bind (swa_assign_step i sp)
                      (\<lambda>_. bind (swa_optional_app i) (\<lambda>_. swa_output i sp)) w3 =
                 (fst (swa_main w), snd (swa_main w))" by (simp add: m)
    from swa_tail_report[OF run t]
    have "filter (\<lambda>e. kind e = Report) es3 =
           (if fst (swa_main w) = Ok () then [PrintJson (credentials sp (swa_subscription_id i))]
            else [])" .
    with sp[OF r] show ?thesis by (simp add: rep)
  next
    case False
    with bad show ?thesis by (simp add: rep)
  qed
qed

section \<open>Evaluating the example runs\<close>

lemmas run_defs = bind_def prompt_def input_line_def return_def Let_def raise_def sys_exit_def
  try_except_def emit_def print_def print_str_def run_subprocess_def run_system_def loads_def
  getitem_def get_default_def lit_def

lemmas found_defs = w_found_def w_found_tenant_def example_world_def found_tool_def
  parse_show_def show_json_def found_defaults_def tenant_defaults_def
  kv_found_inputs_def swa_found_inputs_def kv_tenant_inputs_def

lemma pair_fst: "fst p = a \<Longrightarrow> p = (a, snd p)"
  by (cases p) simp

lemma strip_Nil [simp]: "strip [] = []"
  by (simp add: strip_def)

lemma kv_found_load: "kv_load_defaults w_found = (Ok found_defaults, w_found)"
  by (simp add: kv_load_defaults_def w_found_def example_world_def return_def)

lemma swa_found_load: "swa_load_defaults w_found = (Ok found_defaults, w_found)"
  by (simp add: swa_load_defaults_def w_found_def example_world_def return_def)

lemma kv_found_prompts: "fst (kv_prompt_user found_defaults w_found) = Ok kv_found_inputs"
  by (simp add: kv_prompt_user_def found_defs run_defs str_def)

lemma swa_found_prompts: "fst (swa_prompt_user found_defaults w_found) = Ok swa_found_inputs"
  by (simp add: swa_prompt_user_def found_defs run_defs str_def)

lemma kv_found_lookup:
  "fst (kv_get_sp (kv_sp_name kv_found_inputs) (snd (kv_prompt_user found_defaults w_found))) =
     Ok (True, PStr (str ''c-1''), PStr (str ''o-1''), Some (str ''11111111-aaaa''))"
  by (simp add: kv_prompt_user_def kv_get_sp_def kv_az_def found_defs run_defs
        strip_def is_space_def str_def)

lemma swa_found_lookup:
  "fst (swa_get_sp (swa_sp_name swa_found_inputs)
          (snd (swa_prompt_user found_defaults w_found))) =
     Ok (True, PStr (str ''c-1''), PStr (str ''o-1''), Some (str ''11111111-aaaa''))"
  by (simp add: swa_prompt_user_def swa_get_sp_def swa_az_def found_defs run_defs
        strip_def is_space_def str_def)

lemma kv_tenant_load: "kv_load_defaults w_found_tenant = (Ok tenant_defaults, w_found_tenant)"
  by (simp add: kv_load_defaults_def w_found_tenant_def example_world_def return_def)

lemma kv_tenant_prompts:
  "fst (kv_prompt_user tenant_defaults w_found_tenant) = Ok kv_tenant_inputs"
  by (simp add: kv_prompt_user_def found_defs run_defs str_def)

lemma kv_tenant_lookup:
  "fst (kv_get_sp (kv_sp_name kv_tenant_inputs)
          (snd (kv_prompt_user tenant_defaults w_found_tenant))) =
     Ok (True, PStr (str ''c-1''), PStr (str ''o-1''), Some (str ''11111111-aaaa''))"
  by (simp add: kv_prompt_user_def kv_get_sp_def kv_az_def found_defs run_defs
        strip_def is_space_def str_def)

lemma kv_tenant_completes: "fst (kv_main w_found_tenant) = Ok ()"
  by (simp add: kv_main_def kv_load_defaults_def kv_prompt_user_def kv_sp_creation_reuse_def
        kv_reset_sp_secret_def kv_assign_step_def kv_assign_rbac_def kv_output_def
        kv_get_sp_def kv_az_def found_defs run_defs strip_def is_space_def str_def)

lemma kv_found_completes: "fst (kv_main w_found) = Ok ()"
  by (simp add: kv_main_def kv_load_defaults_def kv_prompt_user_def kv_sp_creation_reuse_def
        kv_reset_sp_secret_def kv_assign_step_def kv_assign_rbac_def kv_output_def
        kv_get_sp_def kv_az_def found_defs run_defs strip_def is_space_def str_def)

section \<open>Reusing an existing principal\<close>

text \<open>
  Claim C5. In a run of either script whose lookup reports the principal found, the client
  id the lookup returned is a string, exactly one credential-reset call is issued, for that
  client id, no creation call is issued, and the report of a run that completes carries that
  client id (a run that does not complete prints no report).
\<close>

theorem found_principal_reused_and_reset_once:
  assumes "kv_load_defaults w = (Ok d, w0)"
      and "kv_prompt_user d w0 = (Ok i, w1)"
      and "kv_get_sp (kv_sp_name i) w1 = (Ok (True, cid, oid, tid), w2)"
      and "swa_load_defaults v = (Ok d', v0)"
      and "swa_prompt_user d' v0 = (Ok j, v1)"
      and "swa_get_sp (swa_sp_name j) v1 = (Ok (True, cid', oid', tid'), v2)"
  shows "(\<exists>c. cid = PStr c \<and>
            filter (\<lambda>e. kind e = Reset) (emitted w (snd (kv_main w))) = [Run (reset_argv c)]) \<and>
         filter (\<lambda>e. kind e = Creation) (emitted w (snd (kv_main w))) = [] \<and>
         map (report_field (str ''clientId''))
           (filter (\<lambda>e. kind e = Report) (emitted w (snd (kv_main w)))) =
           (if fst (kv_main w) = Ok () then [Some cid] else []) \<and>
         (\<exists>c. cid' = PStr c \<and>
            filter (\<lambda>e. kind e = Reset) (emitted v (snd (swa_main v))) = [Run (reset_argv c)]) \<and>
         filter (\<lambda>e. kind e = Creation) (emitted v (snd (swa_main v))) = [] \<and>
         map (report_field (str ''clientId''))
           (filter (\<lambda>e. kind e = Report) (emitted v (snd (swa_main v)))) =
           (if fst (swa_main v) = Ok () then [Some cid'] else [])"
  using kv_found_run(1-3)[OF assms(1-3)] swa_found_run(1-3)[OF assms(4-6)]
  by (intro conjI)

theorem found_principal_reused_and_reset_once_witness:
  "kv_load_defaults w_found = (Ok found_defaults, w_found) \<and>
   fst (kv_prompt_user found_defaults w_found) = Ok kv_found_inputs \<and>
   fst (kv_get_sp (kv_sp_name kv_found_inputs) (snd (kv_prompt_user found_defaults w_found))) =
     Ok (True, PStr (str ''c-1''), PStr (str ''o-1''), Some (str ''11111111-aaaa'')) \<and>
   swa_load_defaults w_found = (Ok found_defaults, w_found) \<and>
   fst (swa_prompt_user found_defaults w_found) = Ok swa_found_inputs \<and>
   fst (swa_get_sp (swa_sp_name swa_found_inputs)
          (snd (swa_prompt_user found_defaults w_found))) =
     Ok (True, PStr (str ''c-1''), PStr (str ''o-1''), Some (str ''11111111-aaaa'')) \<and>
   filter (\<lambda>e. kind e = Reset) (emitted w_found (snd (kv_main w_found))) =
     [Run (reset_argv (str ''c-1''))] \<and>
   map (report_field (str ''clientId''))
     (filter (\<lambda>e. kind e = Report) (emitted w_found (snd (kv_main w_found)))) =
     [Some (PStr (str ''c-1''))] \<and>
   filter (\<lambda>e. kind e = Reset) (emitted w_found (snd (swa_main w_found))) =
     [Run (reset_argv (str ''c-1''))]"
proof -
  note t = found_principal_reused_and_reset_once[
      OF kv_found_load pair_fst[OF kv_found_prompts] pair_fst[OF kv_found_lookup]
         swa_found_load pair_fst[OF swa_found_prompts] pair_fst[OF swa_found_lookup]]
  show ?thesis
    using t kv_found_load kv_found_prompts kv_found_lookup swa_found_load swa_found_prompts
      swa_found_lookup kv_found_completes
    by simp
qed

section \<open>The tenant id\<close>

lemma kv_prompt_user_tenant:
  assumes "kv_prompt_user d w0 = (Ok i, w1)" and "stdin w0 = l1 # l2 # rest"
  shows "kv_tenant_id i = prompt_value l2 (get_default d (str ''azure_tenant_id'') [])"
  using assms
  by (auto simp: kv_prompt_user_def Let_def bind_eq_Ok_iff prompt_eq_Ok_iff split: if_splits)

lemma swa_prompt_user_tenant:
  assumes "swa_prompt_user d w0 = (Ok i, w1)" and "stdin w0 = l1 # l2 # rest"
  shows "swa_tenant_id i = prompt_value l2 (get_default d (str ''azure_tenant_id'') [])"
  using assms
  by (auto simp: swa_prompt_user_def Let_def bind_eq_Ok_iff prompt_eq_Ok_iff split: if_splits)

text \<open>
  Claim C4, as amended. In a run of either script whose lookup reports the principal found
  with some tenant id, where the operator leaves the tenant-id prompt empty and the defaults
  file supplies no tenant id either, the \<^verbatim>\<open>tenantId\<close> of the report that a completed run
  prints is the tenant id the lookup returned (a run that does not complete prints no
  report).
\<close>

theorem empty_tenant_backfilled_from_lookup:
  assumes "kv_load_defaults w = (Ok d, w0)"
      and "stdin w0 = l1 # l2 # rest"
      and "strip l2 = []"
      and "get_default d (str ''azure_tenant_id'') [] = []"
      and "kv_prompt_user d w0 = (Ok i, w1)"
      and "kv_get_sp (kv_sp_name i) w1 = (Ok (True, cid, oid, tid), w2)"
      and "swa_load_defaults v = (Ok d', v0)"
      and "stdin v0 = m1 # m2 # rest'"
      and "strip m2 = []"
      and "get_default d' (str ''azure_tenant_id'') [] = []"
      and "swa_prompt_user d' v0 = (Ok j, v1)"
      and "swa_get_sp (swa_sp_name j) v1 = (Ok (True, cid', oid', tid'), v2)"
  shows "map (report_field (str ''tenantId''))
           (filter (\<lambda>e. kind e = Report) (emitted w (snd (kv_main w)))) =
           (if fst (kv_main w) = Ok () then [Some (of_opt tid)] else []) \<and>
         map (report_field (str ''tenantId''))
           (filter (\<lambda>e. kind e = Report) (emitted v (snd (swa_main v)))) =
           (if fst (swa_main v) = Ok () then [Some (of_opt tid')] else [])"
proof -
  have "kv_tenant_id i = []"
    using kv_prompt_user_tenant[OF assms(5) assms(2)] assms(3) assms(4)
    by (simp add: prompt_value_def)
  moreover have "swa_tenant_id j = []"
    using swa_prompt_user_tenant[OF assms(11) assms(8)] assms(9) assms(10)
    by (simp add: prompt_value_def)
  ultimately show ?thesis
    using kv_found_run(4)[OF assms(1) assms(5) assms(6)]
          swa_found_run(4)[OF assms(7) assms(11) assms(12)]
    by simp
qed

lemma w_found_stdin: "stdin w_found = [] # [] # [[], [], [], []]"
  by (simp add: w_found_def example_world_def)

lemma found_defaults_tenant: "get_default found_defaults (str ''azure_tenant_id'') [] = []"
  by (simp add: get_default_def found_defaults_def)

theorem empty_tenant_backfilled_from_lookup_witness:
  "kv_load_defaults w_found = (Ok found_defaults, w_found) \<and>
   stdin w_found = [] # [] # [[], [], [], []] \<and> strip [] = [] \<and>
   get_default found_defaults (str ''azure_tenant_id'') [] = [] \<and>
   fst (kv_prompt_user found_defaults w_found) = Ok kv_found_inputs \<and>
   fst (kv_get_sp (kv_sp_name kv_found_inputs) (snd (kv_prompt_user found_defaults w_found))) =
     Ok (True, PStr (str ''c-1''), PStr (str ''o-1''), Some (str ''11111111-aaaa'')) \<and>
   swa_load_defaults w_found = (Ok found_defaults, w_found) \<and>
   fst (swa_prompt_user found_defaults w_found) = Ok swa_found_inputs \<and>
   fst (swa_get_sp (swa_sp_name swa_found_inputs)
          (snd (swa_prompt_user found_defaults w_found))) =
     Ok (True, PStr (str ''c-1''), PStr (str ''o-1''), Some (str ''11111111-aaaa'')) \<and>
   fst (kv_main w_found) = Ok () \<and>
   map (report_field (str ''tenantId''))
     (filter (\<lambda>e. kind e = Report) (emitted w_found (snd (kv_main w_found)))) =
     [Some (PStr (str ''11111111-aaaa''))]"
proof -
  note t = empty_tenant_backfilled_from_lookup[
      OF kv_found_load w_found_stdin strip_Nil found_defaults_tenant
         pair_fst[OF kv_found_prompts] pair_fst[OF kv_found_lookup]
         swa_found_load w_found_stdin strip_Nil found_defaults_tenant
         pair_fst[OF swa_found_prompts] pair_fst[OF swa_found_lookup]]
  show ?thesis
    using t kv_found_load w_found_stdin found_defaults_tenant kv_found_prompts kv_found_lookup
      swa_found_load swa_found_prompts swa_found_lookup kv_found_completes
    by simp
qed

text \<open>
  The claim as stated fails when the defaults file holds a tenant id: the operator leaves
  the prompt empty, the lookup reports the principal found with tenant
  \<^verbatim>\<open>11111111-aaaa\<close>, and the report carries the tenant id of the defaults file.
\<close>

theorem empty_tenant_counterexample:
  "stdin w_found_tenant = [[], [], [], [], [], []] \<and>
   fst (kv_get_sp (kv_sp_name kv_tenant_inputs)
          (snd (kv_prompt_user tenant_defaults w_found_tenant))) =
     Ok (True, PStr (str ''c-1''), PStr (str ''o-1''), Some (str ''11111111-aaaa'')) \<and>
   fst (kv_main w_found_tenant) = Ok () \<and>
   map (report_field (str ''tenantId''))
     (filter (\<lambda>e. kind e = Report) (emitted w_found_tenant (snd (kv_main w_found_tenant)))) =
     [Some (PStr (str ''22222222-bbbb''))]"
proof -
  have "stdin w_found_tenant = [[], [], [], [], [], []]"
    by (simp add: w_found_tenant_def example_world_def)
  moreover have "kv_tenant_id kv_tenant_inputs = str ''22222222-bbbb''"
    by (simp add: kv_tenant_inputs_def)
  ultimately show ?thesis
    using kv_found_run(4)[OF kv_tenant_load pair_fst[OF kv_tenant_prompts]
            pair_fst[OF kv_tenant_lookup]]
          kv_tenant_lookup kv_tenant_completes
    by simp
qed

section \<open>Role assignments of the Key Vault script\<close>

lemma kind_kv_assign_line [simp]: "kind (System (kv_assign_line oid scope)) = Assignment"
  by (simp add: kv_assign_line_def kind.simps starts_with_def str_def)

lemma join_assign:
  "join (str '' '') [str ''az'', str ''role'', str ''assignment'', str ''create'',
     str ''--assignee'', oid, str ''--role'', str ''Key Vault Secrets User'', str ''--scope'',
     scope] = kv_assign_line oid scope"
  by (simp add: kv_assign_line_def str_def)

lemma kv_assign_rbac_str:
  "kv_assign_rbac (PStr oid) (str ''Key Vault Secrets User'') scope w =
     (if os_system w (trace w) (kv_assign_line oid scope) = 0 then Ok () else SysExit 1,
      w\<lparr>trace := trace w @ [System (kv_assign_line oid scope)]\<rparr>)"
  by (simp add: kv_assign_rbac_def kv_az_def lit_def join_assign del: join.simps)
     (simp add: bind_def run_system_def sys_exit_def return_def)

lemma kv_assign_rbac_other:
  "\<forall>s. oid \<noteq> PStr s \<Longrightarrow> kv_assign_rbac oid role scope w = (Raise TypeError, w)"
  by (cases oid) (simp_all add: kv_assign_rbac_def kv_az_def lit_def bind_def raise_def)

lemma kv_assign_step_whole_vault:
  assumes "kv_scope_choice i \<noteq> str ''2''" and "kv_assign_step i sp w = (r, w')"
  shows "\<exists>p qs. trace w' = trace w @ Print p #
             (case sp_object_id sp of
                PStr oid \<Rightarrow> [System (kv_assign_line oid (kv_vault_scope i))] | _ \<Rightarrow> []) @ qs \<and>
           list_all (\<lambda>e. kind e = Printed) qs"
    and "r = Ok () \<Longrightarrow> \<exists>oid. sp_object_id sp = PStr oid"
proof -
  show "\<exists>p qs. trace w' = trace w @ Print p #
             (case sp_object_id sp of
                PStr oid \<Rightarrow> [System (kv_assign_line oid (kv_vault_scope i))] | _ \<Rightarrow> []) @ qs \<and>
           list_all (\<lambda>e. kind e = Printed) qs"
  proof (cases "\<exists>oid. sp_object_id sp = PStr oid")
    case True
    then obtain oid where "sp_object_id sp = PStr oid" by blast
    with assms show ?thesis
      by (auto simp: kv_assign_step_def kv_assign_rbac_str bind_def split: if_splits)
  next
    case False
    then have "\<forall>s. sp_object_id sp \<noteq> PStr s" by blast
    from kv_assign_rbac_other[OF this] assms False show ?thesis
      by (cases "sp_object_id sp") (auto simp: kv_assign_step_def bind_def)
  qed
  show "\<exists>oid. sp_object_id sp = PStr oid" if "r = Ok ()"
  proof (rule ccontr)
    assume "\<not> (\<exists>oid. sp_object_id sp = PStr oid)"
    then have "\<forall>s. sp_object_id sp \<noteq> PStr s" by blast
    from kv_assign_rbac_other[OF this] assms that show False
      by (auto simp: kv_assign_step_def bind_def)
  qed
qed

lemma kv_tail_whole_vault:
  assumes choice: "kv_scope_choice i \<noteq> str ''2''"
      and run: "bind (kv_assign_step i sp) (\<lambda>_. kv_output i sp) w2 = (r, w')"
      and tr: "trace w' = trace w2 @ es"
  shows "filter (\<lambda>e. kind e = Assignment) es =
           (case sp_object_id sp of
              PStr oid \<Rightarrow> [System (kv_assign_line oid (kv_vault_scope i))] | _ \<Rightarrow> [])"
    and "filter (\<lambda>e. kind e = Listing) es = []"
    and "filter (\<lambda>e. kind e = PrefixPrompt) es = []"
    and "r = Ok () \<Longrightarrow> \<exists>oid. sp_object_id sp = PStr oid"
proof -
  obtain ra wa where a: "kv_assign_step i sp w2 = (ra, wa)"
    by (cases "kv_assign_step i sp w2")
  from kv_assign_step_whole_vault(1)[OF choice a] obtain p qs where
    ta: "trace wa = trace w2 @ Print p #
             (case sp_object_id sp of
                PStr oid \<Rightarrow> [System (kv_assign_line oid (kv_vault_scope i))] | _ \<Rightarrow> []) @ qs"
    and qs: "list_all (\<lambda>e. kind e = Printed) qs" by blast
  have q: "\<And>k. k \<noteq> Printed \<Longrightarrow> filter (\<lambda>e. kind e = k) qs = []"
    using qs by (auto simp: list_all_iff filter_empty_conv)
  have es: "es = Print p #
             (case sp_object_id sp of
                PStr oid \<Rightarrow> [System (kv_assign_line oid (kv_vault_scope i))] | _ \<Rightarrow> []) @ qs @
             (if ra = Ok () then
                [Print [PStr (0x0A # str ''================== AZURE CREDENTIALS =================='')],
                 PrintJson (credentials sp (kv_subscription_id i)),
                 Print [PStr (str ''======================================================='')],
                 Print [PStr (0x0A #
                   str ''Copy these values into your GitHub repo secrets and use in your GHA workflows.'')]]
              else [])"
    and rr: "r = Ok () \<longleftrightarrow> ra = Ok ()"
    using a run tr ta by (cases ra; auto simp: bind_def kv_output_step)+
  show "filter (\<lambda>e. kind e = Assignment) es =
           (case sp_object_id sp of
              PStr oid \<Rightarrow> [System (kv_assign_line oid (kv_vault_scope i))] | _ \<Rightarrow> [])"
    by (cases "sp_object_id sp") (simp_all add: es q)
  show "filter (\<lambda>e. kind e = Listing) es = []"
    by (cases "sp_object_id sp") (simp_all add: es q)
  show "filter (\<lambda>e. kind e = PrefixPrompt) es = []"
    by (cases "sp_object_id sp") (simp_all add: es q)
  show "\<exists>oid. sp_object_id sp = PStr oid" if "r = Ok ()"
    using kv_assign_step_whole_vault(2)[OF choice a] rr that by simp
qed


lemma kv_choice3_load: "kv_load_defaults w_choice3 = (Ok found_defaults, w_choice3)"
  by (simp add: kv_load_defaults_def w_choice3_def example_world_def return_def)

lemma kv_choice3_prompts:
  "fst (kv_prompt_user found_defaults w_choice3) = Ok kv_choice3_inputs"
  by (simp add: kv_prompt_user_def w_choice3_def kv_choice3_inputs_def found_defs run_defs
        strip_def is_space_def str_def)

lemma kv_choice3_completes: "fst (kv_main w_choice3) = Ok ()"
  by (simp add: kv_main_def kv_load_defaults_def kv_prompt_user_def kv_sp_creation_reuse_def
        kv_reset_sp_secret_def kv_assign_step_def kv_assign_rbac_def kv_output_def
        kv_get_sp_def kv_az_def w_choice3_def found_defs run_defs strip_def is_space_def
        str_def)

lemma kv_prompt_user_whole_vault:
  assumes "kv_prompt_user d w = (Ok i, w')" and "kv_scope_choice i \<noteq> str ''2''"
  shows "list_all (\<lambda>e. kind e \<in> {Printed, Prompted}) (emitted w w')"
    and "kv_secret_prefix i = None"
  using assms
  by (auto simp: kv_prompt_user_def Let_def bind_eq_Ok_iff prompt_eq_Ok_iff emitted_def
           simp del: append_assoc split: if_splits)



lemma kv_prompt_user_choice:
  assumes "kv_prompt_user d w0 = (Ok i, w1)"
      and "stdin w0 = l1 # l2 # l3 # l4 # l5 # l6 # rest"
  shows "kv_scope_choice i = prompt_value l6 (str ''1'')"
  using assms
  by (auto simp: kv_prompt_user_def Let_def bind_eq_Ok_iff prompt_eq_Ok_iff split: if_splits)

lemma prompt_value_not_2:
  "strip l \<noteq> str ''2'' \<Longrightarrow> prompt_value l (str ''1'') \<noteq> str ''2''"
  by (simp add: prompt_value_def str_def)

lemma kv_vault_line:
  "kv_assign_line oid (kv_vault_scope i) =
     str ''az role assignment create --assignee '' @ oid @
     str '' --role Key Vault Secrets User --scope /subscriptions/'' @
     kv_subscription_id i @ str ''/resourceGroups/'' @ kv_resource_group i @
     str ''/providers/Microsoft.KeyVault/vaults/'' @ kv_keyvault_name i"
  by (simp add: kv_assign_line_def kv_vault_scope_def str_def)

lemma kv_choice3_resolves:
  "fst (kv_sp_creation_reuse kv_choice3_inputs (snd (kv_prompt_user found_defaults w_choice3))) =
     Ok found_sp"
  by (simp add: kv_prompt_user_def kv_sp_creation_reuse_def kv_reset_sp_secret_def
        kv_get_sp_def kv_az_def w_choice3_def kv_choice3_inputs_def found_defs found_sp_def
        run_defs strip_def is_space_def str_def)

text \<open>
  Claim C10, as amended. In a run of the Key Vault script, what decides is the answer to
  the scope-choice prompt once \<^verbatim>\<open>prompt\<close> has trimmed its surrounding whitespace (an answer
  of which nothing is left counts as the default \<^verbatim>\<open>"1"\<close>). Whenever that trimmed answer is
  other than \<^verbatim>\<open>"2"\<close>, be it \<^verbatim>\<open>"3"\<close> or arbitrary text, the whole-vault path is taken: no secret
  prefix is asked for (the prompt for it is never shown), the vault is never listed, and the
  role assignments issued are: the single command line that grants the role to the object
  id of the resolved principal at the scope
  \<^verbatim>\<open>/subscriptions/<subscription>/resourceGroups/<group>/providers/Microsoft.KeyVault/vaults/<vault>\<close>
  when the principal has been resolved with a string for object id, as in every run that
  completes; and none when the principal could not be resolved.
\<close>

theorem other_choice_selects_whole_vault:
  assumes "kv_load_defaults w = (Ok d, w0)"
      and "kv_prompt_user d w0 = (Ok i, w1)"
      and "stdin w0 = l1 # l2 # l3 # l4 # l5 # answer # rest"
      and "strip answer \<noteq> str ''2''"
  shows "kv_scope_choice i = (if strip answer = [] then str ''1'' else strip answer) \<and>
         kv_secret_prefix i = None \<and>
         filter (\<lambda>e. kind e = PrefixPrompt) (emitted w (snd (kv_main w))) = [] \<and>
         filter (\<lambda>e. kind e = Listing) (emitted w (snd (kv_main w))) = [] \<and>
         length (filter (\<lambda>e. kind e = Assignment) (emitted w (snd (kv_main w)))) \<le> 1 \<and>
         (\<forall>sp w2. kv_sp_creation_reuse i w1 = (Ok sp, w2) \<longrightarrow>
            filter (\<lambda>e. kind e = Assignment) (emitted w (snd (kv_main w))) =
              (case sp_object_id sp of
                 PStr oid \<Rightarrow>
                   [System (str ''az role assignment create --assignee '' @ oid @
                      str '' --role Key Vault Secrets User --scope /subscriptions/'' @
                      kv_subscription_id i @ str ''/resourceGroups/'' @ kv_resource_group i @
                      str ''/providers/Microsoft.KeyVault/vaults/'' @ kv_keyvault_name i)]
               | _ \<Rightarrow> [])) \<and>
         ((\<forall>sp. fst (kv_sp_creation_reuse i w1) \<noteq> Ok sp) \<longrightarrow>
            filter (\<lambda>e. kind e = Assignment) (emitted w (snd (kv_main w))) = []) \<and>
         (fst (kv_main w) = Ok () \<longrightarrow>
            (\<exists>sp oid. fst (kv_sp_creation_reuse i w1) = Ok sp \<and> sp_object_id sp = PStr oid \<and>
               filter (\<lambda>e. kind e = Assignment) (emitted w (snd (kv_main w))) =
                 [System (str ''az role assignment create --assignee '' @ oid @
                    str '' --role Key Vault Secrets User --scope /subscriptions/'' @
                    kv_subscription_id i @ str ''/resourceGroups/'' @ kv_resource_group i @
                    str ''/providers/Microsoft.KeyVault/vaults/'' @ kv_keyvault_name i)]))"
proof -
  let ?A = "filter (\<lambda>e. kind e = Assignment) (emitted w (snd (kv_main w)))"
  let ?line = "\<lambda>oid. str ''az role assignment create --assignee '' @ oid @
                    str '' --role Key Vault Secrets User --scope /subscriptions/'' @
                    kv_subscription_id i @ str ''/resourceGroups/'' @ kv_resource_group i @
                    str ''/providers/Microsoft.KeyVault/vaults/'' @ kv_keyvault_name i"
  have val: "kv_scope_choice i = prompt_value answer (str ''1'')"
    using assms(2) assms(3) by (rule kv_prompt_user_choice)
  have choice: "kv_scope_choice i \<noteq> str ''2''"
    using prompt_value_not_2[OF assms(4)] val by simp
  obtain r w2 where h2: "kv_sp_creation_reuse i w1 = (r, w2)"
    by (cases "kv_sp_creation_reuse i w1")
  obtain es0 es1 es2 es3 where
    E: "emitted w (snd (kv_main w)) = es0 @ es1 @ es2 @ es3"
    and e0: "list_all (\<lambda>e. kind e = Printed) es0"
    and t1: "trace w1 = trace w0 @ es1"
    and e2: "list_all (\<lambda>e. kind e \<in> {Lookup, Creation, Reset, Printed}) es2"
    and ok: "\<And>sp. r = Ok sp \<Longrightarrow>
       kv_main w = bind (kv_assign_step i sp) (\<lambda>_. kv_output i sp) w2 \<and>
       trace (snd (kv_main w)) = trace w2 @ es3 \<and>
       list_all (\<lambda>e. kind e \<in> {Listing, Assignment, Printed} \<or>
                     e = PrintJson (credentials sp (kv_subscription_id i))) es3"
    and bad: "(\<forall>sp. r \<noteq> Ok sp) \<Longrightarrow> es3 = [] \<and> fst (kv_main w) \<noteq> Ok ()"
    by (rule kv_main_shape[OF assms(1) assms(2) h2], rule that) assumption+
  have e1: "list_all (\<lambda>e. kind e \<in> {Printed, Prompted}) es1"
    using kv_prompt_user_whole_vault(1)[OF assms(2) choice] t1 by (simp add: emitted_def)
  have k0: "\<And>k. k \<noteq> Printed \<Longrightarrow> filter (\<lambda>e. kind e = k) es0 = []"
    using e0 by (auto simp: list_all_iff filter_empty_conv)
  have k1: "\<And>k. k \<notin> {Printed, Prompted} \<Longrightarrow> filter (\<lambda>e. kind e = k) es1 = []"
    using e1 by (rule filter_kind_Nil)
  have k2: "\<And>k. k \<notin> {Lookup, Creation, Reset, Printed} \<Longrightarrow> filter (\<lambda>e. kind e = k) es2 = []"
    using e2 by (rule filter_kind_Nil)
  have A: "?A = filter (\<lambda>e. kind e = Assignment) es3"
    by (simp add: E k0 k1 k2)
  have tail: "filter (\<lambda>e. kind e = PrefixPrompt) es3 = [] \<and>
              filter (\<lambda>e. kind e = Listing) es3 = [] \<and>
              (\<forall>sp. r = Ok sp \<longrightarrow>
                 filter (\<lambda>e. kind e = Assignment) es3 =
                   (case sp_object_id sp of PStr oid \<Rightarrow> [System (?line oid)] | _ \<Rightarrow> []) \<and>
                 (fst (kv_main w) = Ok () \<longrightarrow> (\<exists>oid. sp_object_id sp = PStr oid))) \<and>
              ((\<forall>sp. r \<noteq> Ok sp) \<longrightarrow>
                 filter (\<lambda>e. kind e = Assignment) es3 = [] \<and> fst (kv_main w) \<noteq> Ok ())"
  proof (cases "\<exists>sp. r = Ok sp")
    case True
    then obtain sp where r: "r = Ok sp" by blast
    note m = ok[OF r, THEN conjunct1] and t = ok[OF r, THEN conjunct2, THEN conjunct1]
    have run: "bind (kv_assign_step i sp) (\<lambda>_. kv_output i sp) w2 =
                 (fst (kv_main w), snd (kv_main w))" by (simp add: m)
    note tl = kv_tail_whole_vault[OF choice run t]
    have "filter (\<lambda>e. kind e = Assignment) es3 =
            (case sp_object_id sp of PStr oid \<Rightarrow> [System (?line oid)] | _ \<Rightarrow> [])"
      using tl(1) by (cases "sp_object_id sp") (simp_all add: kv_vault_line)
    moreover have "fst (kv_main w) = Ok () \<longrightarrow> (\<exists>oid. sp_object_id sp = PStr oid)"
      using tl(4) by blast
    ultimately show ?thesis using tl(2) tl(3) r by simp
  next
    case False
    with bad show ?thesis by simp
  qed
  have c1: "kv_scope_choice i = (if strip answer = [] then str ''1'' else strip answer)"
    using val by (simp add: prompt_value_def)
  have c2: "kv_secret_prefix i = None"
    by (rule kv_prompt_user_whole_vault(2)[OF assms(2) choice])
  have c3: "filter (\<lambda>e. kind e = PrefixPrompt) (emitted w (snd (kv_main w))) = []"
    using tail by (simp add: E k0 k1 k2)
  have c4: "filter (\<lambda>e. kind e = Listing) (emitted w (snd (kv_main w))) = []"
    using tail by (simp add: E k0 k1 k2)
  have c6: "\<forall>sp w2'. kv_sp_creation_reuse i w1 = (Ok sp, w2') \<longrightarrow>
              ?A = (case sp_object_id sp of PStr oid \<Rightarrow> [System (?line oid)] | _ \<Rightarrow> [])"
    using tail h2 A by simp
  have c7: "(\<forall>sp. fst (kv_sp_creation_reuse i w1) \<noteq> Ok sp) \<longrightarrow> ?A = []"
    using tail h2 A by simp
  have c5: "length ?A \<le> 1"
  proof (cases "\<exists>sp. r = Ok sp")
    case True
    then obtain sp where r: "r = Ok sp" by blast
    with tail A show ?thesis by (cases "sp_object_id sp") simp_all
  next
    case False
    with tail A show ?thesis by simp
  qed
  have c8: "fst (kv_main w) = Ok () \<longrightarrow>
            (\<exists>sp oid. fst (kv_sp_creation_reuse i w1) = Ok sp \<and> sp_object_id sp = PStr oid \<and>
               ?A = [System (?line oid)])"
  proof
    assume fin: "fst (kv_main w) = Ok ()"
    with tail obtain sp where r: "r = Ok sp" by blast
    with tail fin obtain oid where o: "sp_object_id sp = PStr oid" by blast
    from tail r o A have "?A = [System (?line oid)]" by simp
    with r o h2 have "fst (kv_sp_creation_reuse i w1) = Ok sp \<and> sp_object_id sp = PStr oid \<and>
               ?A = [System (?line oid)]" by simp
    then show "\<exists>sp oid. fst (kv_sp_creation_reuse i w1) = Ok sp \<and> sp_object_id sp = PStr oid \<and>
               ?A = [System (?line oid)]" by blast
  qed
  show ?thesis using c1 c2 c3 c4 c5 c6 c7 c8 by (intro conjI)
qed

theorem other_choice_selects_whole_vault_witness:
  "kv_load_defaults w_choice3 = (Ok found_defaults, w_choice3) \<and>
   fst (kv_prompt_user found_defaults w_choice3) = Ok kv_choice3_inputs \<and>
   stdin w_choice3 = [[], [], str ''sub-1'', str ''rg-1'', str ''kv-1'', str ''3''] \<and>
   strip (str ''3'') \<noteq> str ''2'' \<and>
   kv_scope_choice kv_choice3_inputs = str ''3'' \<and>
   fst (kv_main w_choice3) = Ok () \<and>
   filter (\<lambda>e. kind e = PrefixPrompt) (emitted w_choice3 (snd (kv_main w_choice3))) = [] \<and>
   filter (\<lambda>e. kind e = Listing) (emitted w_choice3 (snd (kv_main w_choice3))) = [] \<and>
   filter (\<lambda>e. kind e = Assignment) (emitted w_choice3 (snd (kv_main w_choice3))) =
     [System (str ''az role assignment create --assignee o-1 --role Key Vault Secrets User --scope /subscriptions/sub-1/resourceGroups/rg-1/providers/Microsoft.KeyVault/vaults/kv-1'')]"
proof -
  have s: "stdin w_choice3 = [[], [], str ''sub-1'', str ''rg-1'', str ''kv-1'', str ''3'']"
    by (simp add: w_choice3_def example_world_def)
  have n: "strip (str ''3'') \<noteq> str ''2''"
    by (simp add: strip_def is_space_def str_def)
  have c: "kv_scope_choice kv_choice3_inputs = str ''3''"
    by (simp add: kv_choice3_inputs_def)
  have o: "sp_object_id found_sp = PStr (str ''o-1'')"
    by (simp add: found_sp_def)
  have l: "str ''az role assignment create --assignee '' @ str ''o-1'' @
           str '' --role Key Vault Secrets User --scope /subscriptions/'' @
           kv_subscription_id kv_choice3_inputs @ str ''/resourceGroups/'' @
           kv_resource_group kv_choice3_inputs @
           str ''/providers/Microsoft.KeyVault/vaults/'' @ kv_keyvault_name kv_choice3_inputs =
           str ''az role assignment create --assignee o-1 --role Key Vault Secrets User --scope /subscriptions/sub-1/resourceGroups/rg-1/providers/Microsoft.KeyVault/vaults/kv-1''"
    by (simp add: kv_choice3_inputs_def str_def)
  note t = other_choice_selects_whole_vault[
      OF kv_choice3_load pair_fst[OF kv_choice3_prompts] s n]
  from t pair_fst[OF kv_choice3_resolves] o
  have a: "filter (\<lambda>e. kind e = Assignment) (emitted w_choice3 (snd (kv_main w_choice3))) =
           [System (str ''az role assignment create --assignee '' @ str ''o-1'' @
           str '' --role Key Vault Secrets User --scope /subscriptions/'' @
           kv_subscription_id kv_choice3_inputs @ str ''/resourceGroups/'' @
           kv_resource_group kv_choice3_inputs @
           str ''/providers/Microsoft.KeyVault/vaults/'' @ kv_keyvault_name kv_choice3_inputs)]"
    by auto
  from t have p: "filter (\<lambda>e. kind e = PrefixPrompt) (emitted w_choice3 (snd (kv_main w_choice3))) = []"
    and q: "filter (\<lambda>e. kind e = Listing) (emitted w_choice3 (snd (kv_main w_choice3))) = []"
    by blast+
  show ?thesis
    using a[unfolded l] p q s n c kv_choice3_load kv_choice3_prompts kv_choice3_completes
    by (intro conjI)
qed

lemma kv_padded_run:
  "fst (kv_main w_padded) = Ok () \<and>
   filter (\<lambda>e. kind e = PrefixPrompt) (emitted w_padded (snd (kv_main w_padded))) =
     [Input (str ''Enter the prefix to match secrets (e.g., dev-github-arc-) [acme-repo-]: '')] \<and>
   filter (\<lambda>e. kind e = Listing) (emitted w_padded (snd (kv_main w_padded))) =
     [Run [str ''az'', str ''keyvault'', str ''secret'', str ''list'', str ''--vault-name'',
           str ''kv-1'', str ''--query'', str ''[?starts_with(name, '' @ [0x27] @ str ''dev-'' @ [0x27] @ str '')].name'', str ''-o'', str ''tsv'']] \<and>
   filter (\<lambda>e. kind e = Assignment) (emitted w_padded (snd (kv_main w_padded))) =
     [System (str ''az role assignment create --assignee o-1 --role Key Vault Secrets User --scope /subscriptions/sub-1/resourceGroups/rg-1/providers/Microsoft.KeyVault/vaults/kv-1/secrets/dev-a''),
      System (str ''az role assignment create --assignee o-1 --role Key Vault Secrets User --scope /subscriptions/sub-1/resourceGroups/rg-1/providers/Microsoft.KeyVault/vaults/kv-1/secrets/dev-b'')]"
  by (simp add: kv_main_def kv_load_defaults_def kv_prompt_user_def kv_sp_creation_reuse_def
        kv_reset_sp_secret_def kv_assign_step_def kv_assign_rbac_def kv_output_def
        kv_get_sp_def kv_get_secret_names_def kv_az_def w_padded_def prefix_tool_def
        found_defs run_defs kv_secret_scope_def kv_vault_scope_def emitted_def kind.simps
        starts_with_def splitlines_def is_linebreak_def strip_def is_space_def str_def)

text \<open>
  The claim as stated fails: the answer \<^verbatim>\<open>" 2"\<close> followed by a tab is not exactly \<^verbatim>\<open>"2"\<close>,
  yet \<^verbatim>\<open>prompt\<close> trims it to \<^verbatim>\<open>"2"\<close>; the prompt for the secret prefix is shown, the vault
  is listed, and two role assignments are issued, each at the scope of one secret.
\<close>

theorem other_choice_counterexample:
  "stdin w_padded =
     [[], [], str ''sub-1'', str ''rg-1'', str ''kv-1'', [0x20, 0x32, 0x09], str ''dev-''] \<and>
   [0x20, 0x32, 0x09] \<noteq> str ''2'' \<and>
   kv_load_defaults w_padded = (Ok found_defaults, w_padded) \<and>
   fst (kv_main w_padded) = Ok () \<and>
   filter (\<lambda>e. kind e = PrefixPrompt) (emitted w_padded (snd (kv_main w_padded))) =
     [Input (str ''Enter the prefix to match secrets (e.g., dev-github-arc-) [acme-repo-]: '')] \<and>
   filter (\<lambda>e. kind e = Listing) (emitted w_padded (snd (kv_main w_padded))) =
     [Run [str ''az'', str ''keyvault'', str ''secret'', str ''list'', str ''--vault-name'',
           str ''kv-1'', str ''--query'', str ''[?starts_with(name, '' @ [0x27] @ str ''dev-'' @ [0x27] @ str '')].name'', str ''-o'', str ''tsv'']] \<and>
   filter (\<lambda>e. kind e = Assignment) (emitted w_padded (snd (kv_main w_padded))) =
     [System (str ''az role assignment create --assignee o-1 --role Key Vault Secrets User --scope /subscriptions/sub-1/resourceGroups/rg-1/providers/Microsoft.KeyVault/vaults/kv-1/secrets/dev-a''),
      System (str ''az role assignment create --assignee o-1 --role Key Vault Secrets User --scope /subscriptions/sub-1/resourceGroups/rg-1/providers/Microsoft.KeyVault/vaults/kv-1/secrets/dev-b'')]"
proof -
  have s: "stdin w_padded =
     [[], [], str ''sub-1'', str ''rg-1'', str ''kv-1'', [0x20, 0x32, 0x09], str ''dev-'']"
    by (simp add: w_padded_def example_world_def)
  have n: "[0x20, 0x32, 0x09] \<noteq> str ''2''"
    by (simp add: str_def)
  have d: "kv_load_defaults w_padded = (Ok found_defaults, w_padded)"
    by (simp add: kv_load_defaults_def w_padded_def example_world_def return_def)
  show ?thesis using s n d kv_padded_run by (intro conjI) simp_all
qed

section \<open>Role assignments per secret\<close>

















section \<open>The identifiers of the Static Web App script\<close>

lemma answer_field_trace [simp]:
  "answer_field (w\<lparr>trace := t\<rparr>) tr argv k = answer_field w tr argv k"
  by (simp add: answer_field_def)

lemma swa_get_sp_pinned:
  assumes "swa_get_sp n w = (r, w')"
  shows "\<exists>rest. trace w' = trace w @ Run (swa_name_lookup n) # rest \<and>
           (\<forall>e\<in>set rest. kind e = Printed \<or>
              (\<exists>c. answer_field w (trace w) (swa_name_lookup n) (str ''appId'') = Some (PStr c) \<and>
                   e = Run (id_lookup c ''appOwnerOrganizationId''))) \<and>
           (\<forall>cid oid tid. r = Ok (True, cid, oid, tid) \<longrightarrow>
              answer_field w (trace w) (swa_name_lookup n) (str ''appId'') = Some cid \<and>
              (\<exists>c. cid = PStr c \<and> rest = [Run (id_lookup c ''appOwnerOrganizationId'')])) \<and>
           (\<forall>a b c. r = Ok (False, a, b, c) \<longrightarrow>
              rest = [] \<and> w' = w\<lparr>trace := trace w @ [Run (swa_name_lookup n)]\<rparr>)"
  using assms
  by (auto simp: swa_get_sp_def swa_az_def swa_name_lookup_def id_lookup_def lit_def bind_def
        run_subprocess_def sys_exit_def return_def raise_def loads_def getitem_def
        answer_field_def
        split: option.splits if_splits pyval.splits)

lemma swa_create_sp_pinned:
  assumes "swa_create_sp n w = (r, w')"
  shows "\<exists>rest. trace w' = trace w @ Run (swa_creation n) # rest \<and>
           (\<forall>e\<in>set rest. kind e = Printed \<or>
              (\<exists>c. answer_field w (trace w) (swa_creation n) (str ''clientId'') = Some (PStr c) \<and>
                   e = Run (id_lookup c ''id''))) \<and>
           (\<forall>cid secret tid oid. r = Ok (cid, secret, tid, oid) \<longrightarrow>
              answer_field w (trace w) (swa_creation n) (str ''clientId'') = Some cid \<and>
              (\<exists>c. cid = PStr c \<and> rest = [Run (id_lookup c ''id'')]))"
  using assms
  by (auto simp: swa_create_sp_def swa_az_def swa_creation_def id_lookup_def lit_def bind_def
        run_subprocess_def sys_exit_def return_def raise_def loads_def getitem_def
        answer_field_def
        split: option.splits if_splits pyval.splits)

lemma swa_create_after_not_found:
  assumes "swa_get_sp (swa_sp_name i) w = (Ok (False, a, b, c), w1)"
  shows "\<exists>p rest. emitted w (snd (swa_sp_create_or_reuse i w)) =
           Run (swa_name_lookup (swa_sp_name i)) # Print p #
           Run (swa_creation (swa_sp_name i)) # rest \<and>
           (\<forall>e\<in>set rest. kind e = Printed \<or>
              (\<exists>c. answer_field w (trace w @ [Run (swa_name_lookup (swa_sp_name i)), Print p])
                     (swa_creation (swa_sp_name i)) (str ''clientId'') = Some (PStr c) \<and>
                   e = Run (id_lookup c ''id'')))"
proof -
  let ?p = "[PStr (str ''==> Creating SP '' @ [0x27] @ swa_sp_name i @ [0x27])]"
  let ?w2 = "w1\<lparr>trace := trace w1 @ [Print ?p]\<rparr>"
  from swa_get_sp_pinned[OF assms]
  have w1: "w1 = w\<lparr>trace := trace w @ [Run (swa_name_lookup (swa_sp_name i))]\<rparr>" by blast
  then have t1: "trace w1 = trace w @ [Run (swa_name_lookup (swa_sp_name i))]" by simp
  obtain r w3 where cr: "swa_create_sp (swa_sp_name i) ?w2 = (r, w3)"
    by (cases "swa_create_sp (swa_sp_name i) ?w2")
  from swa_create_sp_pinned[OF cr] obtain rest where
    rest: "trace w3 = trace ?w2 @ Run (swa_creation (swa_sp_name i)) # rest"
      "\<forall>e\<in>set rest. kind e = Printed \<or>
         (\<exists>c. answer_field ?w2 (trace ?w2) (swa_creation (swa_sp_name i)) (str ''clientId'') =
                 Some (PStr c) \<and> e = Run (id_lookup c ''id''))" by blast
  have af: "answer_field ?w2 (trace ?w2) (swa_creation (swa_sp_name i)) (str ''clientId'') =
            answer_field w (trace w @ [Run (swa_name_lookup (swa_sp_name i)), Print ?p])
              (swa_creation (swa_sp_name i)) (str ''clientId'')"
    by (simp add: w1)
  have "\<exists>q. trace (snd (swa_sp_create_or_reuse i w)) = trace w3 @ q \<and>
            list_all (\<lambda>e. kind e = Printed) q"
    unfolding swa_sp_create_or_reuse_def
    using cr
    by (simp add: bind_Ok[of "swa_get_sp (swa_sp_name i)" w "(False, a, b, c)" w1, OF assms])
       (cases r; auto simp: bind_def print_def emit_def return_def)
  then obtain q where q: "trace (snd (swa_sp_create_or_reuse i w)) = trace w3 @ q"
    "list_all (\<lambda>e. kind e = Printed) q" by blast
  have "emitted w (snd (swa_sp_create_or_reuse i w)) =
           Run (swa_name_lookup (swa_sp_name i)) # Print ?p #
           Run (swa_creation (swa_sp_name i)) # (rest @ q)"
    using q(1) rest(1) t1 by (simp add: emitted_def)
  moreover have "\<forall>e\<in>set (rest @ q). kind e = Printed \<or>
      (\<exists>c. answer_field w (trace w @ [Run (swa_name_lookup (swa_sp_name i)), Print ?p])
             (swa_creation (swa_sp_name i)) (str ''clientId'') = Some (PStr c) \<and>
           e = Run (id_lookup c ''id''))"
    using rest(2) q(2) unfolding af by (auto simp: list_all_iff)
  ultimately show ?thesis by blast
qed

lemma prefixed_name_differs: "str ''http://'' @ n \<noteq> n"
proof
  assume "str ''http://'' @ n = n"
  then have "length (str ''http://'' @ n) = length n" by simp
  then show False by (simp add: str_def)
qed

text \<open>
  Claim C9. In the Static Web App script the existence lookup is the first command of
  \<^verbatim>\<open>get_sp\<close> and passes \<^verbatim>\<open>http://\<close> followed by the name as \<^verbatim>\<open>--id\<close>; the creation
  call is the first command of \<^verbatim>\<open>create_sp\<close> and passes the bare name as \<^verbatim>\<open>--name\<close>.
  Every later command of either function is a lookup whose \<^verbatim>\<open>--id\<close> is the client id
  itself, the \<^verbatim>\<open>appId\<close> (for \<^verbatim>\<open>create_sp\<close> the \<^verbatim>\<open>clientId\<close>) string of the JSON document
  the tool has just answered with, and that is the client id the function returns. A run
  whose lookup reports nothing found issues the lookup and the creation for the same name.
  The identifier of the lookup differs from the name of the creation.
\<close>

theorem swa_lookup_and_creation_identifiers:
  "(\<exists>rest. emitted w (snd (swa_get_sp n w)) = Run (swa_name_lookup n) # rest \<and>
      (\<forall>e\<in>set rest. kind e = Printed \<or>
         (\<exists>c. answer_field w (trace w) (swa_name_lookup n) (str ''appId'') = Some (PStr c) \<and>
              e = Run (id_lookup c ''appOwnerOrganizationId''))) \<and>
      (\<forall>cid oid tid. fst (swa_get_sp n w) = Ok (True, cid, oid, tid) \<longrightarrow>
         answer_field w (trace w) (swa_name_lookup n) (str ''appId'') = Some cid \<and>
         (\<exists>c. cid = PStr c \<and> rest = [Run (id_lookup c ''appOwnerOrganizationId'')]))) \<and>
   (\<exists>rest. emitted w (snd (swa_create_sp n w)) = Run (swa_creation n) # rest \<and>
      (\<forall>e\<in>set rest. kind e = Printed \<or>
         (\<exists>c. answer_field w (trace w) (swa_creation n) (str ''clientId'') = Some (PStr c) \<and>
              e = Run (id_lookup c ''id''))) \<and>
      (\<forall>cid secret tid oid. fst (swa_create_sp n w) = Ok (cid, secret, tid, oid) \<longrightarrow>
         answer_field w (trace w) (swa_creation n) (str ''clientId'') = Some cid \<and>
         (\<exists>c. cid = PStr c \<and> rest = [Run (id_lookup c ''id'')]))) \<and>
   (\<forall>a b c. fst (swa_get_sp (swa_sp_name i) w) = Ok (False, a, b, c) \<longrightarrow>
      (\<exists>p rest. emitted w (snd (swa_sp_create_or_reuse i w)) =
           Run (swa_name_lookup (swa_sp_name i)) # Print p #
           Run (swa_creation (swa_sp_name i)) # rest \<and>
           (\<forall>e\<in>set rest. kind e = Printed \<or>
              (\<exists>c. answer_field w (trace w @ [Run (swa_name_lookup (swa_sp_name i)), Print p])
                     (swa_creation (swa_sp_name i)) (str ''clientId'') = Some (PStr c) \<and>
                   e = Run (id_lookup c ''id''))))) \<and>
   swa_name_lookup n =
     [str ''az'', str ''ad'', str ''sp'', str ''show'', str ''--id'', str ''http://'' @ n] \<and>
   swa_creation n =
     [str ''az'', str ''ad'', str ''sp'', str ''create-for-rbac'', str ''--name'', n,
      str ''--skip-assignment'', str ''--query'',
      str ''{clientId: appId, clientSecret: password, tenantId: tenant}'',
      str ''-o'', str ''json''] \<and>
   (\<forall>c q. id_lookup c q =
     [str ''az'', str ''ad'', str ''sp'', str ''show'', str ''--id'', c, str ''--query'', str q,
      str ''-o'', str ''tsv'']) \<and>
   str ''http://'' @ n \<noteq> n"
proof -
  have g: "swa_get_sp n w = (fst (swa_get_sp n w), snd (swa_get_sp n w))" by simp
  have c: "swa_create_sp n w = (fst (swa_create_sp n w), snd (swa_create_sp n w))" by simp
  from swa_get_sp_pinned[OF g] obtain rest where
    r1: "trace (snd (swa_get_sp n w)) = trace w @ Run (swa_name_lookup n) # rest"
    and r2: "\<forall>e\<in>set rest. kind e = Printed \<or>
         (\<exists>c. answer_field w (trace w) (swa_name_lookup n) (str ''appId'') = Some (PStr c) \<and>
              e = Run (id_lookup c ''appOwnerOrganizationId''))"
    and r3: "\<forall>cid oid tid. fst (swa_get_sp n w) = Ok (True, cid, oid, tid) \<longrightarrow>
         answer_field w (trace w) (swa_name_lookup n) (str ''appId'') = Some cid \<and>
         (\<exists>c. cid = PStr c \<and> rest = [Run (id_lookup c ''appOwnerOrganizationId'')])"
    by blast
  from r1 have "emitted w (snd (swa_get_sp n w)) = Run (swa_name_lookup n) # rest"
    by (simp add: emitted_def)
  with r2 r3 have 1: "\<exists>rest. emitted w (snd (swa_get_sp n w)) = Run (swa_name_lookup n) # rest \<and>
      (\<forall>e\<in>set rest. kind e = Printed \<or>
         (\<exists>c. answer_field w (trace w) (swa_name_lookup n) (str ''appId'') = Some (PStr c) \<and>
              e = Run (id_lookup c ''appOwnerOrganizationId''))) \<and>
      (\<forall>cid oid tid. fst (swa_get_sp n w) = Ok (True, cid, oid, tid) \<longrightarrow>
         answer_field w (trace w) (swa_name_lookup n) (str ''appId'') = Some cid \<and>
         (\<exists>c. cid = PStr c \<and> rest = [Run (id_lookup c ''appOwnerOrganizationId'')]))"
    by blast
  from swa_create_sp_pinned[OF c] obtain rest' where
    s1: "trace (snd (swa_create_sp n w)) = trace w @ Run (swa_creation n) # rest'"
    and s2: "\<forall>e\<in>set rest'. kind e = Printed \<or>
         (\<exists>c. answer_field w (trace w) (swa_creation n) (str ''clientId'') = Some (PStr c) \<and>
              e = Run (id_lookup c ''id''))"
    and s3: "\<forall>cid secret tid oid. fst (swa_create_sp n w) = Ok (cid, secret, tid, oid) \<longrightarrow>
         answer_field w (trace w) (swa_creation n) (str ''clientId'') = Some cid \<and>
         (\<exists>c. cid = PStr c \<and> rest' = [Run (id_lookup c ''id'')])"
    by blast
  from s1 have "emitted w (snd (swa_create_sp n w)) = Run (swa_creation n) # rest'"
    by (simp add: emitted_def)
  with s2 s3 have 2: "\<exists>rest. emitted w (snd (swa_create_sp n w)) = Run (swa_creation n) # rest \<and>
      (\<forall>e\<in>set rest. kind e = Printed \<or>
         (\<exists>c. answer_field w (trace w) (swa_creation n) (str ''clientId'') = Some (PStr c) \<and>
              e = Run (id_lookup c ''id''))) \<and>
      (\<forall>cid secret tid oid. fst (swa_create_sp n w) = Ok (cid, secret, tid, oid) \<longrightarrow>
         answer_field w (trace w) (swa_creation n) (str ''clientId'') = Some cid \<and>
         (\<exists>c. cid = PStr c \<and> rest = [Run (id_lookup c ''id'')]))"
    by blast
  have 3: "\<forall>a b c. fst (swa_get_sp (swa_sp_name i) w) = Ok (False, a, b, c) \<longrightarrow>
      (\<exists>p rest. emitted w (snd (swa_sp_create_or_reuse i w)) =
           Run (swa_name_lookup (swa_sp_name i)) # Print p #
           Run (swa_creation (swa_sp_name i)) # rest \<and>
           (\<forall>e\<in>set rest. kind e = Printed \<or>
              (\<exists>c. answer_field w (trace w @ [Run (swa_name_lookup (swa_sp_name i)), Print p])
                     (swa_creation (swa_sp_name i)) (str ''clientId'') = Some (PStr c) \<and>
                   e = Run (id_lookup c ''id''))))"
  proof (intro allI impI)
    fix a b c assume "fst (swa_get_sp (swa_sp_name i) w) = Ok (False, a, b, c)"
    then have "swa_get_sp (swa_sp_name i) w =
                 (Ok (False, a, b, c), snd (swa_get_sp (swa_sp_name i) w))"
      by (rule pair_fst)
    then show "\<exists>p rest. emitted w (snd (swa_sp_create_or_reuse i w)) =
           Run (swa_name_lookup (swa_sp_name i)) # Print p #
           Run (swa_creation (swa_sp_name i)) # rest \<and>
           (\<forall>e\<in>set rest. kind e = Printed \<or>
              (\<exists>c. answer_field w (trace w @ [Run (swa_name_lookup (swa_sp_name i)), Print p])
                     (swa_creation (swa_sp_name i)) (str ''clientId'') = Some (PStr c) \<and>
                   e = Run (id_lookup c ''id'')))"
      by (rule swa_create_after_not_found)
  qed
  have 4: "swa_name_lookup n =
     [str ''az'', str ''ad'', str ''sp'', str ''show'', str ''--id'', str ''http://'' @ n]"
    by (simp add: swa_name_lookup_def)
  have 5: "swa_creation n =
     [str ''az'', str ''ad'', str ''sp'', str ''create-for-rbac'', str ''--name'', n,
      str ''--skip-assignment'', str ''--query'',
      str ''{clientId: appId, clientSecret: password, tenantId: tenant}'',
      str ''-o'', str ''json'']"
    by (simp add: swa_creation_def)
  have 6: "\<forall>c q. id_lookup c q =
     [str ''az'', str ''ad'', str ''sp'', str ''show'', str ''--id'', c, str ''--query'', str q,
      str ''-o'', str ''tsv'']"
    by (simp add: id_lookup_def)
  from 1 2 3 4 5 6 prefixed_name_differs[of n] show ?thesis by (intro conjI)
qed

lemma swa_create_lookup:
  "fst (swa_get_sp (swa_sp_name swa_found_inputs) w_create) = Ok (False, PNone, PNone, None)"
  by (simp add: swa_get_sp_def swa_az_def w_create_def create_tool_def example_world_def
        found_defs run_defs strip_def is_space_def str_def)

lemma swa_create_answer:
  "answer_field w_create tr (swa_creation (str ''acme-swa-deployer-sp'')) (str ''clientId'') =
     Some (PStr (str ''c-2''))"
  by (simp add: answer_field_def w_create_def create_tool_def parse_create_def
        example_world_def swa_creation_def create_json_def strip_def is_space_def str_def)

theorem swa_lookup_and_creation_identifiers_witness:
  "fst (swa_get_sp (swa_sp_name swa_found_inputs) w_create) = Ok (False, PNone, PNone, None) \<and>
   (\<exists>p rest. emitted w_create (snd (swa_sp_create_or_reuse swa_found_inputs w_create)) =
      Run (swa_name_lookup (str ''acme-swa-deployer-sp'')) # Print p #
      Run (swa_creation (str ''acme-swa-deployer-sp'')) # rest \<and>
      (\<forall>e\<in>set rest. kind e = Printed \<or> e = Run (id_lookup (str ''c-2'') ''id''))) \<and>
   swa_name_lookup (str ''acme-swa-deployer-sp'') =
     [str ''az'', str ''ad'', str ''sp'', str ''show'', str ''--id'',
      str ''http://acme-swa-deployer-sp'']"
proof -
  have n: "swa_sp_name swa_found_inputs = str ''acme-swa-deployer-sp''"
    by (simp add: swa_found_inputs_def)
  have h: "str ''http://'' @ str ''acme-swa-deployer-sp'' = str ''http://acme-swa-deployer-sp''"
    by (simp add: str_def)
  note t = swa_lookup_and_creation_identifiers[of w_create "str ''acme-swa-deployer-sp''"
         swa_found_inputs]
  from t have a: "\<forall>a b c. fst (swa_get_sp (swa_sp_name swa_found_inputs) w_create) =
                    Ok (False, a, b, c) \<longrightarrow>
      (\<exists>p rest. emitted w_create (snd (swa_sp_create_or_reuse swa_found_inputs w_create)) =
           Run (swa_name_lookup (swa_sp_name swa_found_inputs)) # Print p #
           Run (swa_creation (swa_sp_name swa_found_inputs)) # rest \<and>
           (\<forall>e\<in>set rest. kind e = Printed \<or>
              (\<exists>c. answer_field w_create
                     (trace w_create @ [Run (swa_name_lookup (swa_sp_name swa_found_inputs)),
                                        Print p])
                     (swa_creation (swa_sp_name swa_found_inputs)) (str ''clientId'') =
                       Some (PStr c) \<and>
                   e = Run (id_lookup c ''id''))))"
    by blast
  from t have b: "swa_name_lookup (str ''acme-swa-deployer-sp'') =
     [str ''az'', str ''ad'', str ''sp'', str ''show'', str ''--id'',
      str ''http://'' @ str ''acme-swa-deployer-sp'']"
    by blast
  from a swa_create_lookup obtain p rest where
    e: "emitted w_create (snd (swa_sp_create_or_reuse swa_found_inputs w_create)) =
           Run (swa_name_lookup (swa_sp_name swa_found_inputs)) # Print p #
           Run (swa_creation (swa_sp_name swa_found_inputs)) # rest"
    and r: "\<forall>e\<in>set rest. kind e = Printed \<or>
              (\<exists>c. answer_field w_create
                     (trace w_create @ [Run (swa_name_lookup (swa_sp_name swa_found_inputs)),
                                        Print p])
                     (swa_creation (swa_sp_name swa_found_inputs)) (str ''clientId'') =
                       Some (PStr c) \<and>
                   e = Run (id_lookup c ''id''))"
    by blast
  have r': "\<forall>e\<in>set rest. kind e = Printed \<or> e = Run (id_lookup (str ''c-2'') ''id'')"
    using r by (auto simp: n swa_create_answer)
  show ?thesis using swa_create_lookup e r' b by (auto simp: n h)
qed

section \<open>A lookup that finds nothing, in the Key Vault script\<close>

lemma kv_get_sp_nonzero:
  assumes "returncode (subprocess_run w (trace w) (kv_name_lookup n)) \<noteq> 0"
  shows "kv_get_sp n w =
           (SysExit 1,
            w\<lparr>trace := trace w @
               [Run (kv_name_lookup n),
                Print [PStr (str ''Command failed: '' @ join (str '' '') (kv_name_lookup n))],
                Print [PStr (stderr (subprocess_run w (trace w) (kv_name_lookup n)))]]\<rparr>)"
proof -
  have "as_strs (lit ''az'' # [lit ''ad'', lit ''sp'', lit ''show'', lit ''--id'', PStr n]) =
          Some (kv_name_lookup n)"
    by (simp add: lit_def kv_name_lookup_def)
  from kv_az_capture_fails[OF this assms] show ?thesis
    by (simp add: kv_get_sp_def try_except_def bind_def)
qed

lemma kv_lookup_nonzero_run:
  assumes kv0: "kv_load_defaults w = (Ok d, w0)"
      and kv1: "kv_prompt_user d w0 = (Ok i, w1)"
      and rc: "returncode (subprocess_run w1 (trace w1) (kv_name_lookup (kv_sp_name i))) \<noteq> 0"
  shows "fst (kv_main w) = SysExit 1"
    and "filter (\<lambda>e. kind e = Creation) (emitted w (snd (kv_main w))) = []"
    and "filter (\<lambda>e. kind e = Lookup) (emitted w (snd (kv_main w))) =
           [Run (kv_name_lookup (kv_sp_name i))]"
proof -
  let ?w2 = "w1\<lparr>trace := trace w1 @
               [Run (kv_name_lookup (kv_sp_name i)),
                Print [PStr (str ''Command failed: '' @
                  join (str '' '') (kv_name_lookup (kv_sp_name i)))],
                Print [PStr (stderr (subprocess_run w1 (trace w1)
                  (kv_name_lookup (kv_sp_name i))))]]\<rparr>"
  have g: "kv_get_sp (kv_sp_name i) w1 = (SysExit 1, ?w2)"
    by (rule kv_get_sp_nonzero[OF rc])
  have h2: "kv_sp_creation_reuse i w1 = (SysExit 1, ?w2)"
    unfolding kv_sp_creation_reuse_def
    by (rule bind_SysExit[of "kv_get_sp (kv_sp_name i)" w1 1 ?w2, OF g])
  obtain es0 es1 es2 es3 where
    E: "emitted w (snd (kv_main w)) = es0 @ es1 @ es2 @ es3"
    and e0: "list_all (\<lambda>e. kind e = Printed) es0"
    and e1: "list_all (\<lambda>e. kind e \<in> {Printed, Prompted, PrefixPrompt}) es1"
    and t2: "trace ?w2 = trace w1 @ es2"
    and bad: "(\<forall>sp::sp_record. SysExit 1 \<noteq> Ok sp) \<Longrightarrow> es3 = [] \<and> fst (kv_main w) \<noteq> Ok ()"
    by (rule kv_main_shape[OF kv0 kv1 h2], rule that) assumption+
  have es3: "es3 = []" using bad by simp
  have es2: "es2 = [Run (kv_name_lookup (kv_sp_name i)),
                Print [PStr (str ''Command failed: '' @
                  join (str '' '') (kv_name_lookup (kv_sp_name i)))],
                Print [PStr (stderr (subprocess_run w1 (trace w1)
                  (kv_name_lookup (kv_sp_name i))))]]"
    using t2 by simp
  have k0: "\<And>k. k \<noteq> Printed \<Longrightarrow> filter (\<lambda>e. kind e = k) es0 = []"
    using e0 by (auto simp: list_all_iff filter_empty_conv)
  have k1: "\<And>k. k \<notin> {Printed, Prompted, PrefixPrompt} \<Longrightarrow> filter (\<lambda>e. kind e = k) es1 = []"
    using e1 by (rule filter_kind_Nil)
  have kl: "kind (Run (kv_name_lookup (kv_sp_name i))) = Lookup"
    by (simp add: kv_name_lookup_def)
  show "fst (kv_main w) = SysExit 1"
    by (simp add: kv_main_def bind_Ok[of kv_load_defaults w d w0, OF kv0]
          bind_Ok[of "kv_prompt_user d" w0 i w1, OF kv1]
          bind_SysExit[of "kv_sp_creation_reuse i" w1 1 ?w2, OF h2])
  show "filter (\<lambda>e. kind e = Creation) (emitted w (snd (kv_main w))) = []"
    by (simp add: E es2 es3 k0 k1 kl)
  show "filter (\<lambda>e. kind e = Lookup) (emitted w (snd (kv_main w))) =
           [Run (kv_name_lookup (kv_sp_name i))]"
    by (simp add: E es2 es3 k0 k1 kl)
qed

lemma kv_missing_load: "kv_load_defaults w_missing = (Ok found_defaults, w_missing)"
  by (simp add: kv_load_defaults_def w_missing_def example_world_def return_def)

lemma kv_missing_prompts: "fst (kv_prompt_user found_defaults w_missing) = Ok kv_found_inputs"
  by (simp add: kv_prompt_user_def w_missing_def found_defs run_defs str_def)

lemma kv_missing_rc:
  "returncode (subprocess_run (snd (kv_prompt_user found_defaults w_missing))
     (trace (snd (kv_prompt_user found_defaults w_missing)))
     (kv_name_lookup (kv_sp_name kv_found_inputs))) = 3"
  by (simp add: kv_prompt_user_def w_missing_def found_defs run_defs const_tool_def)

text \<open>
  Claim C1 says that a lookup which does not find the identity returns a not-found signal
  and that the run goes on to create the principal. The Key Vault script departs from it:
  its lookup runs \<^verbatim>\<open>az\<close> in the checking mode inside \<^verbatim>\<open>try ... except Exception\<close>, and
  when the command exits non-zero, as it does for an identity that does not exist,
  \<^verbatim>\<open>sys.exit(1)\<close> is not caught and the process ends. Here the operator accepts every
  default and the tool knows no principal: the lookup of the Key Vault script ends the run
  with exit status 1, after that one lookup and without any creation call, while the lookup
  of the Static Web App script returns its not-found signal in the same world.
\<close>

theorem kv_lookup_failure_terminates:
  "returncode (subprocess_run (snd (kv_prompt_user found_defaults w_missing))
     (trace (snd (kv_prompt_user found_defaults w_missing)))
     (kv_name_lookup (str ''acme-repo-sp''))) = 3 \<and>
   fst (kv_get_sp (str ''acme-repo-sp'') (snd (kv_prompt_user found_defaults w_missing))) =
     SysExit 1 \<and>
   fst (kv_main w_missing) = SysExit 1 \<and>
   filter (\<lambda>e. kind e = Lookup) (emitted w_missing (snd (kv_main w_missing))) =
     [Run (kv_name_lookup (str ''acme-repo-sp''))] \<and>
   filter (\<lambda>e. kind e = Creation) (emitted w_missing (snd (kv_main w_missing))) = [] \<and>
   fst (swa_get_sp (str ''acme-swa-deployer-sp'') w_missing) = Ok (False, PNone, PNone, None)"
proof -
  have n: "kv_sp_name kv_found_inputs = str ''acme-repo-sp''"
    by (simp add: kv_found_inputs_def)
  have rc: "returncode (subprocess_run (snd (kv_prompt_user found_defaults w_missing))
     (trace (snd (kv_prompt_user found_defaults w_missing)))
     (kv_name_lookup (kv_sp_name kv_found_inputs))) \<noteq> 0"
    using kv_missing_rc by simp
  note run = kv_lookup_nonzero_run[OF kv_missing_load pair_fst[OF kv_missing_prompts] rc]
  have g: "fst (kv_get_sp (str ''acme-repo-sp'')
                  (snd (kv_prompt_user found_defaults w_missing))) = SysExit 1"
    using kv_get_sp_nonzero[OF rc] by (simp add: n)
  have s: "fst (swa_get_sp (str ''acme-swa-deployer-sp'') w_missing) =
             Ok (False, PNone, PNone, None)"
    by (simp add: swa_get_sp_def swa_az_def w_missing_def const_tool_def example_world_def
          run_defs str_def)
  show ?thesis using run kv_missing_rc g s by (simp add: n)
qed

end
